theory Spec2Isabelle
  imports Main "HOL-Library.Word"
begin

section \<open>Errors and results\<close>

text \<open>
  Every \<^verbatim>\<open>throw\<close> of the adapter and every failure of a collaborator is a value of
  \<open>error\<close>; a fallible computation returns \<open>error + 'a\<close> with \<open>Inl\<close> for the failure.
  \<open>PoolNotFound\<close> is \<^verbatim>\<open>new Error('Protocol token pool not found')\<close>,
  \<open>TokenMetadataNotFound\<close> is \<^verbatim>\<open>new Error('Cannot find token metadata for token')\<close>,
  \<open>DivisionByZero\<close> is the RangeError of a bigint division by \<^verbatim>\<open>0n\<close>,
  \<open>InvalidAddress\<close> is what ethers' \<^verbatim>\<open>getAddress\<close> throws, \<open>BadData\<close> is an ethers error
  with code \<^verbatim>\<open>BAD_DATA\<close>, \<open>BigIntRangeError\<close> is the RangeError of
  \<^verbatim>\<open>BigInt\<close> on a Number that is not an integer, and \<open>UpstreamReadFailure\<close> is any other rejection of the chain
  or event reader.
\<close>

datatype error =
    DivisionByZero
  | PoolNotFound
  | TokenMetadataNotFound
  | InvalidAddress
  | BadData
  | BigIntRangeError
  | UpstreamReadFailure

definition bindR :: "error + 'a \<Rightarrow> ('a \<Rightarrow> error + 'b) \<Rightarrow> error + 'b" where
  "bindR m f = (case m of Inl e \<Rightarrow> Inl e | Inr x \<Rightarrow> f x)"

text \<open>
  \<^verbatim>\<open>Promise.all(xs.map(f))\<close>: the results in the order of \<open>xs\<close>, or a rejection when one
  of the calls rejects (the model reports the leftmost one).
\<close>

fun mapR :: "('a \<Rightarrow> error + 'b) \<Rightarrow> 'a list \<Rightarrow> error + 'b list" where
  "mapR f [] = Inr []"
| "mapR f (x # xs) = bindR (f x) (\<lambda>y. bindR (mapR f xs) (\<lambda>ys. Inr (y # ys)))"

section \<open>Fixed-point math\<close>

text \<open>
  Modelled from the spec: the ray primitives of the library \<^verbatim>\<open>evm-maths\<close> and the class
  \<^verbatim>\<open>MorphoAaveMath\<close> (\<^verbatim>\<open>internal-utils/AaveV3.maths\<close>) are not among the sources.
  A RayValue is a non-negative integer scaled by \<open>10^27\<close>; \<open>rayMul a b\<close> is
  \<open>a * b / RAY\<close> and \<open>rayDiv a b\<close> is \<open>a * RAY / b\<close>, both rounded half up, and
  \<open>rayDiv\<close> fails with \<open>DivisionByZero\<close> when \<open>b = 0\<close>. The adapter's
  \<^verbatim>\<open>__MATH__.indexMul\<close>, \<^verbatim>\<open>__MATH__.indexDiv\<close> and \<^verbatim>\<open>__MATH__.ONE\<close> are the ray
  product, the ray quotient and \<open>1.0\<close> ray.
\<close>

definition RAY :: nat where
  "RAY = 10 ^ 27"

definition rayMul :: "nat \<Rightarrow> nat \<Rightarrow> nat" where
  "rayMul a b = (a * b + RAY div 2) div RAY"

definition rayDiv :: "nat \<Rightarrow> nat \<Rightarrow> error + nat" where
  "rayDiv a b = (if b = 0 then Inl DivisionByZero else Inr ((a * RAY + b div 2) div b))"

definition indexMul :: "nat \<Rightarrow> nat \<Rightarrow> nat" where
  "indexMul a b = rayMul a b"

definition indexDiv :: "nat \<Rightarrow> nat \<Rightarrow> error + nat" where
  "indexDiv a b = rayDiv a b"

definition ONE :: nat where
  "ONE = RAY"

section \<open>Market state\<close>

datatype PositionType = Supply | Borrow | Staked

text \<open>The two sides of a market: the source's fields \<^verbatim>\<open>supply\<close> and \<^verbatim>\<open>borrow\<close>.\<close>

record 'a Sides =
  supplySide :: 'a
  borrowSide :: 'a

record MarketSideIndexes =
  poolIndex :: nat
  p2pIndex :: nat

record MarketSideDelta =
  scaledDelta :: nat
  scaledP2PTotal :: nat

text \<open>The fields the adapter reads of \<^verbatim>\<open>morphoAaveV3.market(underlying)\<close>.\<close>

record Market =
  idleSupply :: nat
  indexes :: "MarketSideIndexes Sides"
  deltas :: "MarketSideDelta Sides"
  p2pIndexCursor :: nat
  reserveFactor :: nat
  aToken :: string
  variableDebtToken :: string

text \<open>The fields the adapter reads of \<^verbatim>\<open>pool.getReserveData(underlying)\<close>.\<close>

record ReserveData =
  currentLiquidityRate :: nat
  currentVariableBorrowRate :: nat
  liquidityIndex :: nat
  variableBorrowIndex :: nat
  aTokenAddress :: string

record P2PIndexes =
  newP2PSupplyIndex :: nat
  newP2PBorrowIndex :: nat

text \<open>
  The class \<^verbatim>\<open>P2PInterestRates\<close> (\<^verbatim>\<open>internal-utils/P2PInterestRates\<close>, the adapter's
  \<^verbatim>\<open>__IRM__\<close>) is not among the sources; it is a parameter. The arguments are the fields
  of the object literal of each call, in this order:
  \<^item> \<open>computeP2PIndexes\<close>: deltas, proportionIdle, p2pIndexCursor, reserveFactor,
    lastBorrowIndexes, lastSupplyIndexes, poolBorrowIndex, poolSupplyIndex;
  \<^item> \<open>computeP2PSupplyRatePerYear\<close> and \<open>computeP2PBorrowRatePerYear\<close>: p2pIndex,
    proportionIdle, p2pIndexCursor, reserveFactor, delta, poolBorrowRatePerYear,
    poolSupplyRatePerYear, poolIndex.
\<close>

record P2PInterestRates =
  computeP2PIndexes ::
    "MarketSideDelta Sides \<Rightarrow> nat \<Rightarrow> nat \<Rightarrow> nat \<Rightarrow> MarketSideIndexes \<Rightarrow> MarketSideIndexes
      \<Rightarrow> nat \<Rightarrow> nat \<Rightarrow> error + P2PIndexes"
  computeP2PSupplyRatePerYear ::
    "nat \<Rightarrow> nat \<Rightarrow> nat \<Rightarrow> nat \<Rightarrow> MarketSideDelta \<Rightarrow> nat \<Rightarrow> nat \<Rightarrow> nat \<Rightarrow> error + nat"
  computeP2PBorrowRatePerYear ::
    "nat \<Rightarrow> nat \<Rightarrow> nat \<Rightarrow> nat \<Rightarrow> MarketSideDelta \<Rightarrow> nat \<Rightarrow> nat \<Rightarrow> nat \<Rightarrow> error + nat"

section \<open>Idle proportion, total value and blended rate of one market\<close>

text \<open>
  The expression bound to \<^verbatim>\<open>proportionIdle\<close>, written out four times in the source
  (both branches of \<^verbatim>\<open>getTotalValueLocked\<close> and of \<^verbatim>\<open>_getProtocolTokenApr\<close>), always over
  \<^verbatim>\<open>idleSupply\<close>, \<^verbatim>\<open>deltas.supply.scaledP2PTotal\<close> and \<^verbatim>\<open>indexes.supply.p2pIndex\<close>.
\<close>

definition proportionIdle :: "nat \<Rightarrow> nat \<Rightarrow> nat \<Rightarrow> error + nat" where
  "proportionIdle idle scaledTotal index =
     (if idle = 0 then Inr 0
      else bindR (indexDiv idle (indexMul scaledTotal index)) (\<lambda>q. Inr (min ONE q)))"

definition marketProportionIdle :: "Market \<Rightarrow> error + nat" where
  "marketProportionIdle m =
     proportionIdle (idleSupply m) (scaledP2PTotal (supplySide (deltas m)))
       (p2pIndex (supplySide (indexes m)))"

definition marketP2PIndexes :: "P2PInterestRates \<Rightarrow> Market \<Rightarrow> ReserveData \<Rightarrow> nat \<Rightarrow> error + P2PIndexes" where
  "marketP2PIndexes irm m r pIdle =
     computeP2PIndexes irm (deltas m) pIdle (p2pIndexCursor m) (reserveFactor m)
       (borrowSide (indexes m)) (supplySide (indexes m)) (variableBorrowIndex r) (liquidityIndex r)"

text \<open>
  \<^verbatim>\<open>getTotalValueLocked\<close>, for one token, after its three reads: \<open>m\<close> is the market,
  \<open>r\<close> the reserve data and \<open>onPool\<close> the balance that the Morpho contract holds of the
  aToken (supply) or of the variable debt token (any other position type).
\<close>

definition totalValueRaw ::
  "P2PInterestRates \<Rightarrow> PositionType \<Rightarrow> Market \<Rightarrow> ReserveData \<Rightarrow> nat \<Rightarrow> error + nat" where
  "totalValueRaw irm positionType m r onPool =
     (if positionType = Supply then
        bindR (marketProportionIdle m) (\<lambda>pIdle.
        bindR (marketP2PIndexes irm m r pIdle) (\<lambda>ix.
          let supplyInP2P = indexMul (scaledP2PTotal (supplySide (deltas m))) (newP2PSupplyIndex ix)
          in Inr (supplyInP2P + onPool)))
      else
        bindR (marketProportionIdle m) (\<lambda>pIdle.
        bindR (marketP2PIndexes irm m r pIdle) (\<lambda>ix.
          let borrowInP2P = indexMul (scaledP2PTotal (borrowSide (deltas m))) (newP2PBorrowIndex ix)
          in Inr (borrowInP2P + onPool))))"

text \<open>
  The weighted average at the end of each branch of \<^verbatim>\<open>_getProtocolTokenApr\<close>:
  \<^verbatim>\<open>total === 0n ? poolRate : RayMath.rayDiv(indexMul(p2pRate, inP2P) + indexMul(poolRate, onPool), total)\<close>.
\<close>

definition blendedRate :: "nat \<Rightarrow> nat \<Rightarrow> nat \<Rightarrow> nat \<Rightarrow> error + nat" where
  "blendedRate p2pRate inP2P poolRate onPool =
     (let total = inP2P + onPool
      in if total = 0 then Inr poolRate
         else rayDiv (indexMul p2pRate inP2P + indexMul poolRate onPool) total)"

text \<open>
  \<^verbatim>\<open>_getProtocolTokenApr\<close>, for one token, after its three reads, up to the bigint
  \<^verbatim>\<open>rate\<close>. The function returns \<^verbatim>\<open>Number(rate) / RAY\<close>, a floating-point number, which
  is left out of the model.
\<close>

definition aprRate ::
  "P2PInterestRates \<Rightarrow> PositionType \<Rightarrow> Market \<Rightarrow> ReserveData \<Rightarrow> nat \<Rightarrow> error + nat" where
  "aprRate irm positionType m r onPool =
     (if positionType = Supply then
        bindR (marketProportionIdle m) (\<lambda>pIdle.
        bindR (marketP2PIndexes irm m r pIdle) (\<lambda>ix.
          let supplyInP2P = indexMul (scaledP2PTotal (supplySide (deltas m))) (newP2PSupplyIndex ix)
          in bindR (computeP2PSupplyRatePerYear irm (newP2PSupplyIndex ix) pIdle (p2pIndexCursor m)
                     (reserveFactor m) (supplySide (deltas m)) (currentVariableBorrowRate r)
                     (currentLiquidityRate r) (liquidityIndex r)) (\<lambda>p2pSupplyRate.
             blendedRate p2pSupplyRate supplyInP2P (currentLiquidityRate r) onPool)))
      else
        bindR (marketProportionIdle m) (\<lambda>pIdle.
        bindR (marketP2PIndexes irm m r pIdle) (\<lambda>ix.
          let borrowInP2P = indexMul (scaledP2PTotal (borrowSide (deltas m))) (newP2PBorrowIndex ix)
          in bindR (computeP2PBorrowRatePerYear irm (newP2PBorrowIndex ix) pIdle (p2pIndexCursor m)
                     (reserveFactor m) (borrowSide (deltas m)) (currentVariableBorrowRate r)
                     (currentLiquidityRate r) (variableBorrowIndex r)) (\<lambda>p2pBorrowRate.
             blendedRate p2pBorrowRate borrowInP2P (currentVariableBorrowRate r) onPool))))"

section \<open>Tokens, positions and the adapter's collaborators\<close>

datatype TokenType = Protocol | Underlying

record Erc20Metadata =
  address :: string
  name :: string
  symbol :: string
  decimals :: nat

record PoolMetadata =
  protocolToken :: Erc20Metadata
  underlyingToken :: Erc20Metadata

text \<open>A bigint is an \<open>int\<close>; the field \<^verbatim>\<open>type\<close> of the source is \<open>tokenType\<close>.\<close>

record TokenBalance = Erc20Metadata +
  balanceRaw :: int

record UnderlyingBalance = TokenBalance +
  tokenType :: TokenType

record ProtocolPosition = UnderlyingBalance +
  balance :: int
  tokens :: "UnderlyingBalance list"

record ProtocolTokenTvl = Erc20Metadata +
  tvlTokenType :: TokenType
  totalSupplyRaw :: nat

record UnderlyingTokenRate = Erc20Metadata +
  rateTokenType :: TokenType
  underlyingRateRaw :: nat

text \<open>
  The arguments of a Morpho event that the adapter reads, and an event log as the
  event reader returns it; \<open>args\<close> is \<open>None\<close> where \<^verbatim>\<open>eventLog.args\<close> is missing.
\<close>

record EventArgs =
  underlying :: string
  amount :: nat

record EventLog =
  args :: "EventArgs option"
  transactionHash :: string
  blockNumber :: nat

datatype EventFilter =
  Supplied | CollateralSupplied | Withdrawn | CollateralWithdrawn | Repaid | Borrowed

text \<open>
  The chain reader and the event reader. A contract call takes the address it is made
  on where the source connects to one, its arguments, and the block tag (\<open>None\<close> for
  \<^verbatim>\<open>undefined\<close>); unsigned 256-bit results are naturals. \<open>queryFilter c f u a b\<close> is
  \<^verbatim>\<open>contract.queryFilter(contract.filters.F(undefined, u), a, b)\<close> on the contract at \<open>c\<close>.
\<close>

record ChainReader =
  supplyBalance :: "string \<Rightarrow> string \<Rightarrow> nat option \<Rightarrow> error + nat"
  collateralBalance :: "string \<Rightarrow> string \<Rightarrow> nat option \<Rightarrow> error + nat"
  borrowBalance :: "string \<Rightarrow> string \<Rightarrow> nat option \<Rightarrow> error + nat"
  market :: "string \<Rightarrow> nat option \<Rightarrow> error + Market"
  getReserveData :: "string \<Rightarrow> nat option \<Rightarrow> error + ReserveData"
  balanceOf :: "string \<Rightarrow> string \<Rightarrow> nat option \<Rightarrow> error + nat"
  queryFilter :: "string \<Rightarrow> EventFilter \<Rightarrow> string \<Rightarrow> nat \<Rightarrow> nat \<Rightarrow> error + EventLog list"

text \<open>
  An adapter: \<open>positionType\<close> is \<^verbatim>\<open>getProtocolDetails().positionType\<close>, \<open>morphoAddress\<close> is
  \<^verbatim>\<open>morphoAaveV3ContractAddresses[protocolId][chainId]\<close>, and \<open>metadata\<close> is the object
  that \<^verbatim>\<open>buildMetadata()\<close> returns, as the list of its entries in insertion order (a
  JavaScript object holds a key once), and \<open>IRM\<close> is the field \<^verbatim>\<open>__IRM__\<close>.
\<close>

record Adapter =
  positionType :: PositionType
  morphoAddress :: string
  metadata :: "(string \<times> PoolMetadata) list"
  IRM :: P2PInterestRates

section \<open>Metadata of a pool\<close>

definition getProtocolTokens :: "Adapter \<Rightarrow> Erc20Metadata list" where
  "getProtocolTokens ad = map (\<lambda>(k, pm). protocolToken pm) (metadata ad)"

definition fetchPoolMetadata :: "Adapter \<Rightarrow> string \<Rightarrow> error + PoolMetadata" where
  "fetchPoolMetadata ad protocolTokenAddress =
     (case map_of (metadata ad) protocolTokenAddress of
        None \<Rightarrow> Inl PoolNotFound
      | Some poolMetadata \<Rightarrow> Inr poolMetadata)"

definition fetchProtocolTokenMetadata :: "Adapter \<Rightarrow> string \<Rightarrow> error + Erc20Metadata" where
  "fetchProtocolTokenMetadata ad protocolTokenAddress =
     bindR (fetchPoolMetadata ad protocolTokenAddress) (\<lambda>pm. Inr (protocolToken pm))"

definition fetchUnderlyingTokensMetadata :: "Adapter \<Rightarrow> string \<Rightarrow> error + Erc20Metadata list" where
  "fetchUnderlyingTokensMetadata ad protocolTokenAddress =
     bindR (fetchPoolMetadata ad protocolTokenAddress) (\<lambda>pm. Inr [underlyingToken pm])"

definition getUnderlyingTokenBalances ::
  "Adapter \<Rightarrow> TokenBalance \<Rightarrow> error + UnderlyingBalance list" where
  "getUnderlyingTokenBalances ad protocolTokenBalance =
     bindR (fetchPoolMetadata ad (address protocolTokenBalance)) (\<lambda>pm.
       let u = underlyingToken pm
       in Inr [\<lparr>address = address u, name = name u, symbol = symbol u, decimals = decimals u,
                 balanceRaw = balanceRaw protocolTokenBalance, tokenType = Underlying\<rparr>])"

section \<open>Positions\<close>

definition getBalance ::
  "ChainReader \<Rightarrow> Adapter \<Rightarrow> Erc20Metadata \<Rightarrow> string \<Rightarrow> nat option \<Rightarrow> error + int" where
  "getBalance rd ad mkt userAddress blockTag =
     (if positionType ad = Supply then
        bindR (supplyBalance rd (address mkt) userAddress blockTag) (\<lambda>supplyBal.
        bindR (collateralBalance rd (address mkt) userAddress blockTag) (\<lambda>collateralBal.
          Inr (int supplyBal + int collateralBal)))
      else
        bindR (borrowBalance rd (address mkt) userAddress blockTag) (\<lambda>borrowBal.
          Inr (int borrowBal)))"

definition protocolTokenBalanceOf ::
  "ChainReader \<Rightarrow> Adapter \<Rightarrow> string \<Rightarrow> nat option \<Rightarrow> Erc20Metadata \<Rightarrow> error + string \<times> int" where
  "protocolTokenBalanceOf rd ad userAddress blockTag mkt =
     bindR (fetchPoolMetadata ad (address mkt)) (\<lambda>pm.
     bindR (getBalance rd ad (underlyingToken pm) userAddress blockTag) (\<lambda>amt.
       Inr (address mkt, amt)))"

definition completePosition :: "Adapter \<Rightarrow> string \<times> int \<Rightarrow> error + ProtocolPosition" where
  "completePosition ad protocolTokenBalance =
     (case protocolTokenBalance of (addr, bal) \<Rightarrow>
        bindR (fetchProtocolTokenMetadata ad addr) (\<lambda>tokenMetadata.
          let completeTokenBalance =
                \<lparr>address = addr, name = name tokenMetadata, symbol = symbol tokenMetadata,
                 decimals = decimals tokenMetadata, balanceRaw = bal\<rparr>
          in bindR (getUnderlyingTokenBalances ad completeTokenBalance) (\<lambda>underlyingTokenBalances.
               Inr \<lparr>address = addr, name = name tokenMetadata, symbol = symbol tokenMetadata,
                    decimals = decimals tokenMetadata, balanceRaw = bal, tokenType = Protocol,
                    balance = bal, tokens = underlyingTokenBalances\<rparr>)))"

definition getPositions ::
  "ChainReader \<Rightarrow> Adapter \<Rightarrow> string \<Rightarrow> nat option \<Rightarrow> error + ProtocolPosition list" where
  "getPositions rd ad userAddress blockTag =
     bindR (mapR (protocolTokenBalanceOf rd ad userAddress blockTag) (getProtocolTokens ad))
       (\<lambda>protocolTokensBalances.
          mapR (completePosition ad)
            (filter (\<lambda>(addr, bal). bal \<noteq> 0) protocolTokensBalances))"

text \<open>
  \<^verbatim>\<open>_getUnderlyingTokenConversionRate\<close> computes the rate as
  \<^verbatim>\<open>BigInt(PRICE_PEGGED_TO_ONE * 10 ** protocolTokenMetadata.decimals)\<close>, where the power
  is a Number, that is an IEEE 754 double. The language leaves the value of \<^verbatim>\<open>**\<close> to the
  engine (an approximation of the power), so the model takes the engine's \<^verbatim>\<open>10 ** d\<close> as
  the parameter \<open>pow10\<close>: a double that is not negative, either \<^verbatim>\<open>Infinity\<close> or a
  mantissa of 53 bits times a power of two. The product with \<^verbatim>\<open>PRICE_PEGGED_TO_ONE\<close>,
  which is \<open>1\<close>, is that double. \<^verbatim>\<open>BigInt\<close> of a double is its value when that is an
  integer and throws a RangeError otherwise.
\<close>

datatype Double = Finite "53 word" int | Infinity

definition bigIntOfDouble :: "Double \<Rightarrow> error + nat" where
  "bigIntOfDouble x =
     (case x of
        Infinity \<Rightarrow> Inl BigIntRangeError
      | Finite mantissa e \<Rightarrow>
          if 0 \<le> e then Inr (unat mantissa * 2 ^ nat e)
          else if 2 ^ nat (- e) dvd unat mantissa then Inr (unat mantissa div 2 ^ nat (- e))
          else Inl BigIntRangeError)"

definition pricePerShareRaw :: "(nat \<Rightarrow> Double) \<Rightarrow> nat \<Rightarrow> error + nat" where
  "pricePerShareRaw pow10 d = bigIntOfDouble (pow10 d)"

definition getUnderlyingTokenConversionRate ::
  "Adapter \<Rightarrow> (nat \<Rightarrow> Double) \<Rightarrow> Erc20Metadata \<Rightarrow> error + UnderlyingTokenRate list" where
  "getUnderlyingTokenConversionRate ad pow10 protocolTokenMetadata =
     bindR (fetchPoolMetadata ad (address protocolTokenMetadata)) (\<lambda>pm.
     bindR (pricePerShareRaw pow10 (decimals protocolTokenMetadata)) (\<lambda>rate.
       let u = underlyingToken pm
       in Inr [\<lparr>address = address u, name = name u, symbol = symbol u, decimals = decimals u,
                 rateTokenType = Underlying, underlyingRateRaw = rate\<rparr>]))"

section \<open>Movements\<close>

record BaseTokenMovement = Erc20Metadata +
  movementTransactionHash :: string
  movementValueRaw :: nat

record MovementsByBlock =
  movementProtocolToken :: Erc20Metadata
  underlyingTokensMovement :: "(string \<times> BaseTokenMovement) list"
  movementBlockNumber :: nat

text \<open>
  The event types of \<^verbatim>\<open>_getMovements\<close>, a union of string literals in the source; 
  \<open>literal\<close> gives the string of each.
\<close>

datatype EventType =
  supplied | collat_supplied | withdrawn | collat_withdrawn | repaid | borrowed

fun literal :: "EventType \<Rightarrow> string" where
  "literal supplied = ''supplied''"
| "literal collat_supplied = ''collat-supplied''"
| "literal withdrawn = ''withdrawn''"
| "literal collat_withdrawn = ''collat-withdrawn''"
| "literal repaid = ''repaid''"
| "literal borrowed = ''borrowed''"

text \<open>
  JavaScript's \<^verbatim>\<open>a || b\<close> on two strings: \<open>a\<close> when \<open>a\<close> is truthy, that is not the empty
  string, and \<open>b\<close> otherwise.
\<close>

definition js_or :: "EventType \<Rightarrow> EventType \<Rightarrow> EventType" where
  "js_or a b = (if literal a \<noteq> [] then a else b)"

text \<open>The \<^verbatim>\<open>switch\<close> of \<^verbatim>\<open>_getMovements\<close> that picks the event filter.\<close>

fun filterOf :: "EventType \<Rightarrow> EventFilter" where
  "filterOf supplied = Supplied"
| "filterOf collat_supplied = CollateralSupplied"
| "filterOf withdrawn = Withdrawn"
| "filterOf collat_withdrawn = CollateralWithdrawn"
| "filterOf repaid = Repaid"
| "filterOf borrowed = Borrowed"

text \<open>\<^verbatim>\<open>obj[k] = v\<close> on an object held as the list of its entries.\<close>

fun objSet :: "(string \<times> 'v) list \<Rightarrow> string \<Rightarrow> 'v \<Rightarrow> (string \<times> 'v) list" where
  "objSet [] k v = [(k, v)]"
| "objSet ((k', v') # kvs) k v = (if k' = k then (k, v) # kvs else (k', v') # objSet kvs k v)"

definition movementOfEvent :: "Adapter \<Rightarrow> EventLog \<Rightarrow> error + MovementsByBlock option" where
  "movementOfEvent ad event =
     (case args event of
        None \<Rightarrow> Inr None
      | Some eventData \<Rightarrow>
          bindR (fetchProtocolTokenMetadata ad (underlying eventData)) (\<lambda>pToken.
          bindR (fetchUnderlyingTokensMetadata ad (underlying eventData)) (\<lambda>underlyingTokens.
            Inr (Some
              \<lparr>movementProtocolToken = pToken,
               underlyingTokensMovement =
                 foldl (\<lambda>acc u. objSet acc (address u)
                          \<lparr>address = address u, name = name u, symbol = symbol u,
                           decimals = decimals u,
                           movementTransactionHash = transactionHash event,
                           movementValueRaw = amount eventData\<rparr>)
                   [] underlyingTokens,
               movementBlockNumber = blockNumber event\<rparr>))))"

definition getMovements ::
  "ChainReader \<Rightarrow> Adapter \<Rightarrow> string \<Rightarrow> string \<Rightarrow> nat \<Rightarrow> nat \<Rightarrow> EventType
    \<Rightarrow> error + MovementsByBlock list" where
  "getMovements rd ad userAddress protocolTokenAddress fromBlock toBlock eventType =
     bindR (queryFilter rd protocolTokenAddress (filterOf eventType) userAddress fromBlock toBlock)
       (\<lambda>eventResults.
     bindR (mapR (movementOfEvent ad) eventResults) (\<lambda>movements.
       Inr (List.map_filter (\<lambda>movement. movement) movements)))"

definition getWithdrawals ::
  "ChainReader \<Rightarrow> Adapter \<Rightarrow> string \<Rightarrow> string \<Rightarrow> nat \<Rightarrow> nat \<Rightarrow> error + MovementsByBlock list" where
  "getWithdrawals rd ad userAddress protocolTokenAddress fromBlock toBlock =
     getMovements rd ad userAddress protocolTokenAddress fromBlock toBlock withdrawn"

definition getCollateralWithdrawals ::
  "ChainReader \<Rightarrow> Adapter \<Rightarrow> string \<Rightarrow> string \<Rightarrow> nat \<Rightarrow> nat \<Rightarrow> error + MovementsByBlock list" where
  "getCollateralWithdrawals rd ad userAddress protocolTokenAddress fromBlock toBlock =
     getMovements rd ad userAddress protocolTokenAddress fromBlock toBlock collat_withdrawn"

definition getDeposits ::
  "ChainReader \<Rightarrow> Adapter \<Rightarrow> string \<Rightarrow> string \<Rightarrow> nat \<Rightarrow> nat \<Rightarrow> error + MovementsByBlock list" where
  "getDeposits rd ad userAddress protocolTokenAddress fromBlock toBlock =
     getMovements rd ad userAddress protocolTokenAddress fromBlock toBlock
       (js_or supplied collat_supplied)"

definition getCollateralDeposits ::
  "ChainReader \<Rightarrow> Adapter \<Rightarrow> string \<Rightarrow> string \<Rightarrow> nat \<Rightarrow> nat \<Rightarrow> error + MovementsByBlock list" where
  "getCollateralDeposits rd ad userAddress protocolTokenAddress fromBlock toBlock =
     getMovements rd ad userAddress protocolTokenAddress fromBlock toBlock collat_supplied"

definition getBorrows ::
  "ChainReader \<Rightarrow> Adapter \<Rightarrow> string \<Rightarrow> string \<Rightarrow> nat \<Rightarrow> nat \<Rightarrow> error + MovementsByBlock list" where
  "getBorrows rd ad userAddress protocolTokenAddress fromBlock toBlock =
     getMovements rd ad userAddress protocolTokenAddress fromBlock toBlock borrowed"

definition getRepays ::
  "ChainReader \<Rightarrow> Adapter \<Rightarrow> string \<Rightarrow> string \<Rightarrow> nat \<Rightarrow> nat \<Rightarrow> error + MovementsByBlock list" where
  "getRepays rd ad userAddress protocolTokenAddress fromBlock toBlock =
     getMovements rd ad userAddress protocolTokenAddress fromBlock toBlock repaid"

section \<open>Profits\<close>

text \<open>
  Modelled from the spec: \<^verbatim>\<open>aggregateTrades\<close> (\<^verbatim>\<open>core/utils/aggregateTrades\<close>) is not
  among the sources. It aggregates the movements by summing the raw amounts per token
  address; the result, a \<^verbatim>\<open>Record<string, bigint>\<close> that the adapter only reads by key,
  is a map.
\<close>

definition addTrade :: "(string \<rightharpoonup> int) \<Rightarrow> string \<times> BaseTokenMovement \<Rightarrow> (string \<rightharpoonup> int)" where
  "addTrade acc entry =
     (case entry of (addr, movement) \<Rightarrow>
        acc(addr \<mapsto> (case acc addr of None \<Rightarrow> 0 | Some v \<Rightarrow> v) + int (movementValueRaw movement)))"

definition aggregateTrades :: "MovementsByBlock list \<Rightarrow> (string \<rightharpoonup> int)" where
  "aggregateTrades events =
     foldl (\<lambda>acc event. foldl addTrade acc (underlyingTokensMovement event)) Map.empty events"

text \<open>
  An entry of the object that \<^verbatim>\<open>formatProtocolTokenArrayToMap\<close> returns.
  That function (\<^verbatim>\<open>core/utils/protocolTokenToMap\<close>) is not among the sources and the
  spec does not describe it: it is the parameter \<open>fmt\<close> of \<open>getProfits\<close>, from a position
  list to the entries of the object, keyed by protocol token address.
\<close>

record PositionEntry =
  protocolTokenMetadata :: Erc20Metadata
  underlyingTokenPositions :: "(string \<times> UnderlyingBalance) list"

record CalculationData =
  withdrawalsRaw :: int
  depositsRaw :: int
  startPositionValueRaw :: int
  endPositionValueRaw :: int

text \<open>
  The tokens of a profit result; the decimal strings that \<^verbatim>\<open>formatUnits\<close> renders
  beside each raw amount are left out.
\<close>

record UnderlyingProfit = Erc20Metadata +
  profitRaw :: int
  profitTokenType :: TokenType
  calculationData :: CalculationData

record ProtocolProfit = Erc20Metadata +
  protocolProfitType :: TokenType
  profitTokens :: "UnderlyingProfit list"

record ProfitsWithRange =
  profits :: "ProtocolProfit list"
  rangeFromBlock :: nat
  rangeToBlock :: nat

text \<open>\<^verbatim>\<open>events[address] ?? 0n\<close>.\<close>

definition orZero :: "int option \<Rightarrow> int" where
  "orZero v = (case v of None \<Rightarrow> 0 | Some x \<Rightarrow> x)"

text \<open>
  \<^verbatim>\<open>startPositionValues[protocolTokenAddress]?.underlyingTokenPositions[address]?.balanceRaw ?? 0n\<close>.
\<close>

definition startValueOf :: "(string \<times> PositionEntry) list \<Rightarrow> string \<Rightarrow> string \<Rightarrow> int" where
  "startValueOf startPositionValues protocolTokenAddress addr =
     (case map_of startPositionValues protocolTokenAddress of
        None \<Rightarrow> 0
      | Some entry \<Rightarrow>
          (case map_of (underlyingTokenPositions entry) addr of
             None \<Rightarrow> 0
           | Some startPosition \<Rightarrow> balanceRaw startPosition))"

text \<open>The function mapped over the underlying end positions of one protocol token.\<close>

definition profitOfUnderlying ::
  "PositionType \<Rightarrow> (string \<times> PositionEntry) list \<Rightarrow> string \<Rightarrow> (string \<rightharpoonup> int)
    \<Rightarrow> (string \<rightharpoonup> int) \<Rightarrow> UnderlyingBalance \<Rightarrow> UnderlyingProfit" where
  "profitOfUnderlying pType startPositionValues protocolTokenAddress eventsOut eventsIn endPosition =
     (let startValue = startValueOf startPositionValues protocolTokenAddress (address endPosition);
          outRaw = orZero (eventsOut (address endPosition));
          inRaw = orZero (eventsIn (address endPosition));
          endValue = balanceRaw endPosition;
          profit = endValue + outRaw - inRaw - startValue;
          profit' = (if pType = Borrow then profit * (- 1) else profit)
      in \<lparr>address = address endPosition, name = name endPosition, symbol = symbol endPosition,
           decimals = decimals endPosition, profitRaw = profit', profitTokenType = Underlying,
           calculationData =
             \<lparr>withdrawalsRaw = orZero (eventsOut (address endPosition)),
              depositsRaw = orZero (eventsIn (address endPosition)),
              startPositionValueRaw = startValue,
              endPositionValueRaw = endValue\<rparr>\<rparr>)"

text \<open>
  The pair \<^verbatim>\<open>(eventsOut, eventsIn)\<close> of \<^verbatim>\<open>getProfits\<close> for one protocol token; the object
  spread \<^verbatim>\<open>{ ...a, ...b }\<close> is the map \<open>a ++ b\<close>, where an entry of \<open>b\<close> replaces the
  entry of \<open>a\<close> with the same key.
\<close>

definition movementSums ::
  "ChainReader \<Rightarrow> Adapter \<Rightarrow> string \<Rightarrow> string \<Rightarrow> nat \<Rightarrow> nat
    \<Rightarrow> error + (string \<rightharpoonup> int) \<times> (string \<rightharpoonup> int)" where
  "movementSums rd ad userAddress protocolTokenAddress fromBlock toBlock =
     (if positionType ad = Supply then
        bindR (getWithdrawals rd ad userAddress protocolTokenAddress fromBlock toBlock) (\<lambda>w.
        bindR (getDeposits rd ad userAddress protocolTokenAddress fromBlock toBlock) (\<lambda>d.
        bindR (getCollateralDeposits rd ad userAddress protocolTokenAddress fromBlock toBlock) (\<lambda>cd.
        bindR (getCollateralWithdrawals rd ad userAddress protocolTokenAddress fromBlock toBlock) (\<lambda>cw.
          let withdrawalEvents = aggregateTrades w;
              depositEvents = aggregateTrades d;
              collateralDepositEvents = aggregateTrades cd;
              collateralWithdrawalEvents = aggregateTrades cw
          in Inr (withdrawalEvents ++ collateralWithdrawalEvents,
                  depositEvents ++ collateralDepositEvents)))))
      else
        bindR (getBorrows rd ad userAddress protocolTokenAddress fromBlock toBlock) (\<lambda>b.
        bindR (getRepays rd ad userAddress protocolTokenAddress fromBlock toBlock) (\<lambda>r.
          Inr (aggregateTrades b, aggregateTrades r))))"

text \<open>
  The event totals in the words of the spec, to compare with \<open>movementSums\<close>: the raw
  amounts summed per token address over all the events of the range, so that for a
  supply adapter the inflow is the sum over the deposits and the collateral deposits
  together and the outflow the sum over the withdrawals and the collateral withdrawals
  together; for any other adapter the outflow is the sum over the borrows and the inflow
  the sum over the repays.
\<close>

definition specMovementSums ::
  "ChainReader \<Rightarrow> Adapter \<Rightarrow> string \<Rightarrow> string \<Rightarrow> nat \<Rightarrow> nat
    \<Rightarrow> error + (string \<rightharpoonup> int) \<times> (string \<rightharpoonup> int)" where
  "specMovementSums rd ad userAddress protocolTokenAddress fromBlock toBlock =
     (if positionType ad = Supply then
        bindR (getWithdrawals rd ad userAddress protocolTokenAddress fromBlock toBlock) (\<lambda>w.
        bindR (getDeposits rd ad userAddress protocolTokenAddress fromBlock toBlock) (\<lambda>d.
        bindR (getCollateralDeposits rd ad userAddress protocolTokenAddress fromBlock toBlock) (\<lambda>cd.
        bindR (getCollateralWithdrawals rd ad userAddress protocolTokenAddress fromBlock toBlock) (\<lambda>cw.
          Inr (aggregateTrades (w @ cw), aggregateTrades (d @ cd))))))
      else
        bindR (getBorrows rd ad userAddress protocolTokenAddress fromBlock toBlock) (\<lambda>b.
        bindR (getRepays rd ad userAddress protocolTokenAddress fromBlock toBlock) (\<lambda>r.
          Inr (aggregateTrades b, aggregateTrades r))))"

definition profitOfEntry ::
  "ChainReader \<Rightarrow> Adapter \<Rightarrow> (string \<times> PositionEntry) list \<Rightarrow> string \<Rightarrow> nat \<Rightarrow> nat
    \<Rightarrow> PositionEntry \<Rightarrow> error + ProtocolProfit" where
  "profitOfEntry rd ad startPositionValues userAddress fromBlock toBlock entry =
     (let ptm = protocolTokenMetadata entry
      in bindR (movementSums rd ad userAddress (address ptm) fromBlock toBlock) (\<lambda>(eventsOut, eventsIn).
           Inr \<lparr>address = address ptm, name = name ptm, symbol = symbol ptm,
                decimals = decimals ptm, protocolProfitType = Protocol,
                profitTokens =
                  map (\<lambda>(k, endPosition).
                         profitOfUnderlying (positionType ad) startPositionValues (address ptm)
                           eventsOut eventsIn endPosition)
                    (underlyingTokenPositions entry)\<rparr>))"

definition getProfits ::
  "ChainReader \<Rightarrow> Adapter \<Rightarrow> (ProtocolPosition list \<Rightarrow> (string \<times> PositionEntry) list)
    \<Rightarrow> string \<Rightarrow> nat \<Rightarrow> nat \<Rightarrow> error + ProfitsWithRange" where
  "getProfits rd ad fmt userAddress fromBlock toBlock =
     bindR (getPositions rd ad userAddress (Some toBlock)) (\<lambda>endPositions.
     bindR (getPositions rd ad userAddress (Some fromBlock)) (\<lambda>startPositions.
       let endPositionValues = fmt endPositions;
           startPositionValues = fmt startPositions
       in bindR (mapR (\<lambda>(k, entry).
                    profitOfEntry rd ad startPositionValues userAddress fromBlock toBlock entry)
                  endPositionValues) (\<lambda>ts.
            Inr \<lparr>profits = ts, rangeFromBlock = fromBlock, rangeToBlock = toBlock\<rparr>)))"

section \<open>Total value locked and APR\<close>

definition tvlOfToken ::
  "ChainReader \<Rightarrow> Adapter \<Rightarrow> nat option \<Rightarrow> Erc20Metadata \<Rightarrow> error + ProtocolTokenTvl" where
  "tvlOfToken rd ad blockTag tokenMetadata =
     bindR (fetchPoolMetadata ad (address tokenMetadata)) (\<lambda>pm.
     bindR (market rd (address (underlyingToken pm)) blockTag) (\<lambda>m.
     bindR (getReserveData rd (address (underlyingToken pm)) blockTag) (\<lambda>r.
     bindR (balanceOf rd (if positionType ad = Supply then aToken m else variableDebtToken m)
              (morphoAddress ad) blockTag) (\<lambda>onPool.
     bindR (totalValueRaw (IRM ad) (positionType ad) m r onPool) (\<lambda>total.
       Inr \<lparr>address = address tokenMetadata, name = name tokenMetadata,
            symbol = symbol tokenMetadata, decimals = decimals tokenMetadata,
            tvlTokenType = Protocol, totalSupplyRaw = total\<rparr>)))))"

definition getTotalValueLocked ::
  "ChainReader \<Rightarrow> Adapter \<Rightarrow> nat option \<Rightarrow> error + ProtocolTokenTvl list" where
  "getTotalValueLocked rd ad blockTag = mapR (tvlOfToken rd ad blockTag) (getProtocolTokens ad)"

text \<open>
  \<^verbatim>\<open>_getProtocolTokenApr\<close> up to the bigint \<^verbatim>\<open>rate\<close> (see \<open>aprRate\<close>).
\<close>

definition getProtocolTokenAprRate ::
  "ChainReader \<Rightarrow> Adapter \<Rightarrow> string \<Rightarrow> nat option \<Rightarrow> error + nat" where
  "getProtocolTokenAprRate rd ad protocolTokenAddress blockTag =
     bindR (fetchPoolMetadata ad protocolTokenAddress) (\<lambda>pm.
     bindR (market rd (address (underlyingToken pm)) blockTag) (\<lambda>m.
     bindR (getReserveData rd (address (underlyingToken pm)) blockTag) (\<lambda>r.
     bindR (balanceOf rd (if positionType ad = Supply then aToken m else variableDebtToken m)
              (morphoAddress ad) blockTag) (\<lambda>onPool.
       aprRate (IRM ad) (positionType ad) m r onPool))))"

section \<open>Token metadata resolution\<close>

text \<open>The members of the enum \<^verbatim>\<open>Chain\<close> that the sources name.\<close>

datatype Chain =
  Ethereum | Optimism | Bsc | Polygon | Fantom | Base | Arbitrum | Avalanche | Linea

record NativeToken =
  nativeName :: string
  nativeSymbol :: string
  nativeDecimals :: nat

text \<open>
  What \<^verbatim>\<open>getTokenMetadata\<close> depends on and the sources do not hold:
  \<^item> \<open>getAddress\<close>, of the library ethers, which returns the checksum form of an address
    and throws on a string that is not one (\<open>None\<close>);
  \<^item> the constants \<^verbatim>\<open>nativeTokenAddresses\<close> and \<^verbatim>\<open>nativeToken\<close>;
  \<^item> the two JSON files of cached metadata, objects from lower-case address to metadata;
  \<^item> the calls on the ERC-20 contract at an address: \<^verbatim>\<open>name()\<close>, \<^verbatim>\<open>symbol()\<close>,
    \<^verbatim>\<open>decimals()\<close>, \<^verbatim>\<open>getAddress()\<close>, and \<open>callBytes32 c f\<close> for
    \<^verbatim>\<open>ethers.decodeBytes32String(await provider.call({to: c, data: selector of f}))\<close>.
\<close>

record TokenEnv =
  getAddress :: "string \<Rightarrow> string option"
  nativeTokenAddresses :: "string list"
  nativeToken :: "Chain \<Rightarrow> NativeToken"
  tokenMetadataEthereum :: "string \<rightharpoonup> Erc20Metadata"
  tokenMetadataArbitrum :: "string \<rightharpoonup> Erc20Metadata"
  erc20Name :: "string \<Rightarrow> error + string"
  erc20Symbol :: "string \<Rightarrow> error + string"
  erc20Decimals :: "string \<Rightarrow> error + nat"
  erc20GetAddress :: "string \<Rightarrow> error + string"
  callBytes32 :: "string \<Rightarrow> string \<Rightarrow> error + string"

definition getAddressR :: "TokenEnv \<Rightarrow> string \<Rightarrow> error + string" where
  "getAddressR env a = (case getAddress env a of None \<Rightarrow> Inl InvalidAddress | Some c \<Rightarrow> Inr c)"

text \<open>\<^verbatim>\<open>toLowerCase\<close> on the ASCII letters of an address.\<close>

definition toLowerChar :: "char \<Rightarrow> char" where
  "toLowerChar c =
     (case map_of (zip ''ABCDEFGHIJKLMNOPQRSTUVWXYZ'' ''abcdefghijklmnopqrstuvwxyz'') c of
        None \<Rightarrow> c
      | Some l \<Rightarrow> l)"

definition toLowerCase :: "string \<Rightarrow> string" where
  "toLowerCase s = map toLowerChar s"

definition CHAIN_METADATA :: "TokenEnv \<Rightarrow> Chain \<Rightarrow> (string \<rightharpoonup> Erc20Metadata) option" where
  "CHAIN_METADATA env chainId =
     (if chainId = Ethereum then Some (tokenMetadataEthereum env)
      else if chainId = Arbitrum then Some (tokenMetadataArbitrum env)
      else None)"

text \<open>The entry of the file cache for a token, if the chain has a file and the file the token.\<close>

definition fileTokenMetadata :: "TokenEnv \<Rightarrow> string \<Rightarrow> Chain \<Rightarrow> Erc20Metadata option" where
  "fileTokenMetadata env tokenAddress chainId =
     (case CHAIN_METADATA env chainId of
        None \<Rightarrow> None
      | Some fileMetadata \<Rightarrow> fileMetadata (toLowerCase tokenAddress))"

datatype StringField = NameField | SymbolField

definition fetchStringTokenData :: "TokenEnv \<Rightarrow> string \<Rightarrow> StringField \<Rightarrow> error + string" where
  "fetchStringTokenData env tokenAddress functionName =
     (case (case functionName of NameField \<Rightarrow> erc20Name env tokenAddress
                               | SymbolField \<Rightarrow> erc20Symbol env tokenAddress) of
        Inr v \<Rightarrow> Inr v
      | Inl e \<Rightarrow>
          if e \<noteq> BadData then Inl e
          else bindR (erc20GetAddress env tokenAddress) (\<lambda>contractAddress.
                 callBytes32 env contractAddress
                   (case functionName of NameField \<Rightarrow> ''name'' | SymbolField \<Rightarrow> ''symbol'')))"

definition getOnChainTokenMetadata :: "TokenEnv \<Rightarrow> string \<Rightarrow> Erc20Metadata option" where
  "getOnChainTokenMetadata env tokenAddress =
     (case bindR (fetchStringTokenData env tokenAddress NameField) (\<lambda>nm.
           bindR (fetchStringTokenData env tokenAddress SymbolField) (\<lambda>sym.
           bindR (erc20Decimals env tokenAddress) (\<lambda>decimal.
           bindR (erc20GetAddress env tokenAddress) (\<lambda>contractAddress.
           bindR (getAddressR env contractAddress) (\<lambda>a.
             Inr \<lparr>address = a, name = nm, symbol = sym, decimals = decimal\<rparr>))))) of
        Inl e \<Rightarrow> None
      | Inr tokenMetadata \<Rightarrow> Some tokenMetadata)"

text \<open>
  The literal in \<^verbatim>\<open>REAL_ESTATE_TOKEN_METADATA\<close>, whose \<^verbatim>\<open>address\<close> is
  \<^verbatim>\<open>getAddress\<close> of it; \<open>getTokenMetadata\<close> below starts with that call, which the
  source makes once, when the module is loaded.
\<close>

definition REAL_ESTATE_TOKEN_ADDRESS :: string where
  "REAL_ESTATE_TOKEN_ADDRESS = ''0x6b8734ad31D42F5c05A86594314837C416ADA984''"

definition getTokenMetadata :: "TokenEnv \<Rightarrow> string \<Rightarrow> Chain \<Rightarrow> error + Erc20Metadata" where
  "getTokenMetadata env tokenAddress chainId =
     bindR (getAddressR env REAL_ESTATE_TOKEN_ADDRESS) (\<lambda>realEstateAddress.
     bindR (getAddressR env tokenAddress) (\<lambda>checksummed.
       if checksummed = realEstateAddress \<and> chainId = Ethereum then
         Inr \<lparr>address = realEstateAddress, name = ''Real Estate USD (REUSD)'',
              symbol = ''Real Estate USD (REUSD)'', decimals = 18\<rparr>
       else if tokenAddress \<in> set (nativeTokenAddresses env) then
         bindR (getAddressR env tokenAddress) (\<lambda>a.
           Inr \<lparr>address = a, name = nativeName (nativeToken env chainId),
                symbol = nativeSymbol (nativeToken env chainId),
                decimals = nativeDecimals (nativeToken env chainId)\<rparr>)
       else
         (case fileTokenMetadata env tokenAddress chainId of
            Some cached \<Rightarrow>
              bindR (getAddressR env (address cached)) (\<lambda>a.
                Inr \<lparr>address = a, name = name cached, symbol = symbol cached,
                     decimals = decimals cached\<rparr>)
          | None \<Rightarrow>
              (case getOnChainTokenMetadata env tokenAddress of
                 Some onChainTokenMetadata \<Rightarrow> Inr onChainTokenMetadata
               | None \<Rightarrow> Inl TokenMetadataNotFound))))"



section \<open>Example inputs\<close>

text \<open>
  An instance of the interest-rate parameter: it returns the new peer-to-peer indexes
  \<open>1.1\<close> ray (supply) and \<open>1.2\<close> ray (borrow), and the yearly peer-to-peer rates
  \<open>4%\<close> (supply) and \<open>5%\<close> (borrow), whatever the market.
\<close>

definition exampleIrm :: P2PInterestRates where
  "exampleIrm =
     \<lparr>computeP2PIndexes = (\<lambda>d pIdle cursor rf lastBorrow lastSupply poolBorrow poolSupply.
        Inr \<lparr>newP2PSupplyIndex = 11 * 10 ^ 26, newP2PBorrowIndex = 12 * 10 ^ 26\<rparr>),
      computeP2PSupplyRatePerYear = (\<lambda>idx pIdle cursor rf d br sr pidx. Inr (4 * 10 ^ 25)),
      computeP2PBorrowRatePerYear = (\<lambda>idx pIdle cursor rf d br sr pidx. Inr (5 * 10 ^ 25))\<rparr>"

text \<open>
  The market of the spec's scenario: no idle supply, a scaled peer-to-peer supply of
  \<open>1000\<close> (and a scaled peer-to-peer borrow of \<open>400\<close>).
\<close>

definition exampleMarket :: Market where
  "exampleMarket =
     \<lparr>idleSupply = 0,
      indexes = \<lparr>supplySide = \<lparr>poolIndex = 10 ^ 27, p2pIndex = 10 ^ 27\<rparr>,
                 borrowSide = \<lparr>poolIndex = 10 ^ 27, p2pIndex = 10 ^ 27\<rparr>\<rparr>,
      deltas = \<lparr>supplySide = \<lparr>scaledDelta = 0, scaledP2PTotal = 1000\<rparr>,
                borrowSide = \<lparr>scaledDelta = 0, scaledP2PTotal = 400\<rparr>\<rparr>,
      p2pIndexCursor = 5000,
      reserveFactor = 1000,
      aToken = ''0xa'',
      variableDebtToken = ''0xd''\<rparr>"

text \<open>A market with idle supply and nothing matched peer-to-peer on the supply side.\<close>

definition idleOnlyMarket :: Market where
  "idleOnlyMarket =
     \<lparr>idleSupply = 5,
      indexes = \<lparr>supplySide = \<lparr>poolIndex = 10 ^ 27, p2pIndex = 10 ^ 27\<rparr>,
                 borrowSide = \<lparr>poolIndex = 10 ^ 27, p2pIndex = 10 ^ 27\<rparr>\<rparr>,
      deltas = \<lparr>supplySide = \<lparr>scaledDelta = 0, scaledP2PTotal = 0\<rparr>,
                borrowSide = \<lparr>scaledDelta = 0, scaledP2PTotal = 400\<rparr>\<rparr>,
      p2pIndexCursor = 5000,
      reserveFactor = 1000,
      aToken = ''0xa'',
      variableDebtToken = ''0xd''\<rparr>"

definition exampleReserve :: ReserveData where
  "exampleReserve =
     \<lparr>currentLiquidityRate = 3 * 10 ^ 25,
      currentVariableBorrowRate = 6 * 10 ^ 25,
      liquidityIndex = 10 ^ 27,
      variableBorrowIndex = 10 ^ 27,
      aTokenAddress = ''0xa''\<rparr>"

definition exampleProtocolToken :: Erc20Metadata where
  "exampleProtocolToken =
     \<lparr>address = ''0xa'', name = ''Aave WETH'', symbol = ''aWETH'', decimals = 18\<rparr>"

definition exampleUnderlyingToken :: Erc20Metadata where
  "exampleUnderlyingToken =
     \<lparr>address = ''0xc'', name = ''Wrapped Ether'', symbol = ''WETH'', decimals = 18\<rparr>"

text \<open>An adapter of the given position type with one market.\<close>

definition exampleAdapter :: "PositionType \<Rightarrow> Adapter" where
  "exampleAdapter pType =
     \<lparr>positionType = pType,
      morphoAddress = ''0x3'',
      metadata = [(''0xa'', \<lparr>protocolToken = exampleProtocolToken,
                            underlyingToken = exampleUnderlyingToken\<rparr>)],
      IRM = exampleIrm\<rparr>"

definition exampleEvent :: "nat \<Rightarrow> nat \<Rightarrow> EventLog" where
  "exampleEvent n blk =
     \<lparr>args = Some \<lparr>underlying = ''0xa'', amount = n\<rparr>, transactionHash = ''0xt'',
      blockNumber = blk\<rparr>"

text \<open>
  A chain on which the user holds \<open>200\<close> at block \<open>10\<close> and \<open>300 + 20\<close> later, owes
  \<open>40\<close> and then \<open>70\<close>, the Morpho contract holds \<open>500\<close> on the pool, and the logs
  hold one plain deposit of \<open>100\<close>, one collateral deposit of \<open>50\<close> and one withdrawal
  of \<open>30\<close>.
\<close>

definition exampleReader :: ChainReader where
  "exampleReader =
     \<lparr>supplyBalance = (\<lambda>u usr blockTag. Inr (if blockTag = Some 10 then 200 else 300)),
      collateralBalance = (\<lambda>u usr blockTag. Inr (if blockTag = Some 10 then 0 else 20)),
      borrowBalance = (\<lambda>u usr blockTag. Inr (if blockTag = Some 10 then 40 else 70)),
      market = (\<lambda>u blockTag. Inr exampleMarket),
      getReserveData = (\<lambda>u blockTag. Inr exampleReserve),
      balanceOf = (\<lambda>tk holder blockTag. Inr 500),
      queryFilter = (\<lambda>c flt usr a b.
        Inr (if flt = Supplied then [exampleEvent 100 12]
             else if flt = CollateralSupplied then [exampleEvent 50 14]
             else if flt = Withdrawn then [exampleEvent 30 16]
             else []))\<rparr>"

text \<open>
  An instance of the parameter \<open>fmt\<close> of \<open>getProfits\<close>: one entry per position, keyed by
  its address, with its underlying balances keyed by their address.
\<close>

definition positionsByAddress :: "ProtocolPosition list \<Rightarrow> (string \<times> PositionEntry) list" where
  "positionsByAddress ps =
     map (\<lambda>p. (address p,
               \<lparr>protocolTokenMetadata =
                  \<lparr>address = address p, name = name p, symbol = symbol p, decimals = decimals p\<rparr>,
                underlyingTokenPositions = map (\<lambda>u. (address u, u)) (tokens p)\<rparr>)) ps"

text \<open>
  An environment of \<open>getTokenMetadata\<close>. \<open>getAddress\<close> is ethers' function on the
  addresses of the examples, in lower case or in checksum form, and rejects any other
  string, as ethers rejects a mixed-case address with a wrong checksum. The file of
  Ethereum holds WETH and an entry for the REUSD token; DAI is only on chain.
\<close>

definition wethLower :: string where
  "wethLower = ''0xc02aaa39b223fe8d0a0e5c4f27ead9083c756cc2''"

definition wethChecksum :: string where
  "wethChecksum = ''0xC02aaA39b223FE8D0A0e5C4F27eAD9083C756Cc2''"

definition wethBadChecksum :: string where
  "wethBadChecksum = ''0xC02AAA39b223fe8d0a0e5c4f27ead9083c756cc2''"

definition daiLower :: string where
  "daiLower = ''0x6b175474e89094c44da98b954eedeac495271d0f''"

definition daiChecksum :: string where
  "daiChecksum = ''0x6B175474E89094C44Da98b954EedeAC495271d0F''"

definition exampleGetAddress :: "string \<Rightarrow> string option" where
  "exampleGetAddress =
     map_of
       [(REAL_ESTATE_TOKEN_ADDRESS, REAL_ESTATE_TOKEN_ADDRESS),
        (toLowerCase REAL_ESTATE_TOKEN_ADDRESS, REAL_ESTATE_TOKEN_ADDRESS),
        (wethLower, wethChecksum),
        (wethChecksum, wethChecksum),
        (daiLower, daiChecksum),
        (daiChecksum, daiChecksum)]"

definition exampleTokenEnv :: TokenEnv where
  "exampleTokenEnv =
     \<lparr>getAddress = exampleGetAddress,
      nativeTokenAddresses = [''0xEeeeeEeeeEeEeeEeEeEeeEEEeeeeEeeeeeeeEEeE''],
      nativeToken = (\<lambda>c. \<lparr>nativeName = ''Ethereum'', nativeSymbol = ''ETH'', nativeDecimals = 18\<rparr>),
      tokenMetadataEthereum =
        [wethLower \<mapsto>
           \<lparr>address = wethLower, name = ''Wrapped Ether'', symbol = ''WETH'', decimals = 18\<rparr>,
         toLowerCase REAL_ESTATE_TOKEN_ADDRESS \<mapsto>
           \<lparr>address = toLowerCase REAL_ESTATE_TOKEN_ADDRESS, name = ''Cached REUSD'',
            symbol = ''REUSD'', decimals = 18\<rparr>],
      tokenMetadataArbitrum = Map.empty,
      erc20Name = (\<lambda>a. if a = daiLower then Inr ''Dai Stablecoin'' else Inl UpstreamReadFailure),
      erc20Symbol = (\<lambda>a. if a = daiLower then Inr ''DAI'' else Inl UpstreamReadFailure),
      erc20Decimals = (\<lambda>a. if a = daiLower then Inr 18 else Inl UpstreamReadFailure),
      erc20GetAddress = (\<lambda>a. Inr a),
      callBytes32 = (\<lambda>c f. Inl UpstreamReadFailure)\<rparr>"

text \<open>
  What the adapter returns on the example chain: the supply position at block \<open>20\<close>
  and the profits between the blocks \<open>10\<close> and \<open>20\<close>.
\<close>

definition examplePosition :: ProtocolPosition where
  "examplePosition =
     \<lparr>address = ''0xa'', name = ''Aave WETH'', symbol = ''aWETH'', decimals = 18,
      balanceRaw = 320, tokenType = Protocol, balance = 320,
      tokens = [\<lparr>address = ''0xc'', name = ''Wrapped Ether'', symbol = ''WETH'',
                 decimals = 18, balanceRaw = 320, tokenType = Underlying\<rparr>]\<rparr>"

definition exampleProfitToken :: UnderlyingProfit where
  "exampleProfitToken =
     \<lparr>address = ''0xc'', name = ''Wrapped Ether'', symbol = ''WETH'', decimals = 18,
      profitRaw = 100, profitTokenType = Underlying,
      calculationData =
        \<lparr>withdrawalsRaw = 30, depositsRaw = 50, startPositionValueRaw = 200,
         endPositionValueRaw = 320\<rparr>\<rparr>"

definition exampleProtocolProfit :: ProtocolProfit where
  "exampleProtocolProfit =
     \<lparr>address = ''0xa'', name = ''Aave WETH'', symbol = ''aWETH'', decimals = 18,
      protocolProfitType = Protocol, profitTokens = [exampleProfitToken]\<rparr>"

definition exampleProfits :: ProfitsWithRange where
  "exampleProfits =
     \<lparr>profits = [exampleProtocolProfit], rangeFromBlock = 10, rangeToBlock = 20\<rparr>"

section \<open>Results of fallible computations\<close>

lemma bindR_Inr [simp]: "bindR (Inr x) f = f x"
  by (simp add: bindR_def)

lemma bindR_Inl [simp]: "bindR (Inl e) f = Inl e"
  by (simp add: bindR_def)

lemma bindR_Inr_iff: "bindR m f = Inr y \<longleftrightarrow> (\<exists>x. m = Inr x \<and> f x = Inr y)"
  by (cases m) simp_all

lemma mapR_member: "mapR f xs = Inr ys \<Longrightarrow> y \<in> set ys \<Longrightarrow> \<exists>x \<in> set xs. f x = Inr y"
proof (induction xs arbitrary: ys)
  case Nil
  then show ?case by simp
next
  case (Cons x xs)
  from Cons.prems(1) obtain z zs where fx: "f x = Inr z" and rest: "mapR f xs = Inr zs"
    and ys: "ys = z # zs"
    by (auto simp: bindR_Inr_iff)
  show ?case
  proof (cases "y = z")
    case True
    with fx show ?thesis by simp
  next
    case False
    with Cons.prems(2) ys have "y \<in> set zs" by simp
    with Cons.IH [OF rest] show ?thesis by auto
  qed
qed

lemma mapR_Inr_D: "mapR f xs = Inr ys \<Longrightarrow> list_all2 (\<lambda>x y. f x = Inr y) xs ys"
proof (induction xs arbitrary: ys)
  case Nil
  then show ?case by simp
next
  case (Cons x xs)
  from Cons.prems obtain z zs where "f x = Inr z" and rest: "mapR f xs = Inr zs" and "ys = z # zs"
    by (auto simp: bindR_Inr_iff)
  with Cons.IH [OF rest] show ?case by simp
qed

section \<open>The example inputs, evaluated\<close>

lemmas example_defs =
  exampleIrm_def exampleMarket_def idleOnlyMarket_def exampleReserve_def exampleProtocolToken_def
  exampleUnderlyingToken_def exampleAdapter_def exampleEvent_def exampleReader_def
  positionsByAddress_def

lemmas ray_defs = indexMul_def indexDiv_def rayMul_def rayDiv_def RAY_def ONE_def

lemmas position_defs =
  getPositions_def getProtocolTokens_def protocolTokenBalanceOf_def fetchPoolMetadata_def
  getBalance_def completePosition_def fetchProtocolTokenMetadata_def
  getUnderlyingTokenBalances_def

lemmas movement_defs =
  getWithdrawals_def getDeposits_def getCollateralDeposits_def getCollateralWithdrawals_def
  getBorrows_def getRepays_def getMovements_def movementOfEvent_def
  fetchUnderlyingTokensMetadata_def js_or_def List.map_filter_def

lemmas profit_defs =
  getProfits_def profitOfEntry_def movementSums_def aggregateTrades_def addTrade_def
  profitOfUnderlying_def startValueOf_def orZero_def

lemmas token_example_defs =
  exampleTokenEnv_def exampleGetAddress_def wethLower_def wethChecksum_def wethBadChecksum_def
  daiLower_def daiChecksum_def REAL_ESTATE_TOKEN_ADDRESS_def toLowerCase_def toLowerChar_def

lemma example_positions_supply:
  "getPositions exampleReader (exampleAdapter Supply) ''0xu'' (Some 20) = Inr [examplePosition]"
  by (simp add: example_defs position_defs examplePosition_def)

lemma example_tvl_supply:
  "getTotalValueLocked exampleReader (exampleAdapter Supply) None =
     Inr [\<lparr>address = ''0xa'', name = ''Aave WETH'', symbol = ''aWETH'', decimals = 18,
           tvlTokenType = Protocol, totalSupplyRaw = 1600\<rparr>]"
  by (simp add: example_defs getTotalValueLocked_def getProtocolTokens_def tvlOfToken_def
      fetchPoolMetadata_def totalValueRaw_def marketProportionIdle_def proportionIdle_def
      marketP2PIndexes_def ray_defs)

lemma example_profits_supply:
  "getProfits exampleReader (exampleAdapter Supply) positionsByAddress ''0xu'' 10 20 =
     Inr exampleProfits"
  by (simp add: example_defs position_defs movement_defs profit_defs Let_def exampleProfits_def
      exampleProtocolProfit_def exampleProfitToken_def)

section \<open>The idle proportion\<close>

lemma indexMul_zero [simp]: "indexMul 0 index = 0"
  by (simp add: indexMul_def rayMul_def RAY_def)

text \<open>
  C1, as the spec states it: whenever \<open>scaledP2PTotal = 0\<close> the idle proportion is \<open>0\<close>
  whatever the idle supply, with no division by zero. The code guards on the idle supply
  instead: on a market with an idle supply of \<open>5\<close> and a scaled peer-to-peer supply of
  \<open>0\<close> the divisor is \<open>0\<close> and the computation fails, in \<open>getTotalValueLocked\<close> and in the
  APR computation, on the supply and on the borrow branch.
\<close>

theorem proportionIdle_zero_total_counterexample:
  "scaledP2PTotal (supplySide (deltas idleOnlyMarket)) = 0
   \<and> marketProportionIdle idleOnlyMarket = Inl DivisionByZero
   \<and> totalValueRaw exampleIrm Supply idleOnlyMarket exampleReserve 500 = Inl DivisionByZero
   \<and> totalValueRaw exampleIrm Borrow idleOnlyMarket exampleReserve 500 = Inl DivisionByZero
   \<and> aprRate exampleIrm Supply idleOnlyMarket exampleReserve 500 = Inl DivisionByZero
   \<and> aprRate exampleIrm Borrow idleOnlyMarket exampleReserve 500 = Inl DivisionByZero"
  by (simp add: idleOnlyMarket_def marketProportionIdle_def proportionIdle_def totalValueRaw_def
      aprRate_def indexDiv_def rayDiv_def)

text \<open>
  C1, amended: whenever the idle supply is \<open>0\<close> the idle proportion is \<open>0\<close>, whatever
  \<open>scaledP2PTotal\<close>, and nothing is divided. With a non-zero idle supply the divisor is
  the ray product of \<open>scaledP2PTotal\<close> and the peer-to-peer supply index, and the
  computation fails with a division by zero exactly when that product is \<open>0\<close>; it then
  fails in every place that computes the proportion, the total value locked and the APR
  rate of either position type. On a market within the bound of the data model, an
  idle supply of at most that product, nothing fails, the proportion is at most \<open>ONE\<close>,
  and it is \<open>0\<close> when \<open>scaledP2PTotal = 0\<close>.
\<close>

theorem proportionIdle_guard:
  "proportionIdle 0 scaledTotal index = Inr 0
   \<and> (proportionIdle idle scaledTotal index = Inl DivisionByZero
        \<longleftrightarrow> idle \<noteq> 0 \<and> indexMul scaledTotal index = 0)
   \<and> (idleSupply m = 0 \<longrightarrow> marketProportionIdle m = Inr 0)
   \<and> (idleSupply m' \<noteq> 0
         \<and> indexMul (scaledP2PTotal (supplySide (deltas m'))) (p2pIndex (supplySide (indexes m'))) = 0
       \<longrightarrow> totalValueRaw irm pType m' r onPool = Inl DivisionByZero
           \<and> aprRate irm pType m' r onPool = Inl DivisionByZero)
   \<and> (idle' \<le> indexMul scaledTotal' index'
       \<longrightarrow> (\<exists>p. proportionIdle idle' scaledTotal' index' = Inr p \<and> p \<le> ONE)
           \<and> (scaledTotal' = 0 \<longrightarrow> proportionIdle idle' scaledTotal' index' = Inr 0))"
proof -
  have guard: "proportionIdle 0 scaledTotal index = Inr 0"
    by (simp add: proportionIdle_def)
  have fails: "proportionIdle idle scaledTotal index = Inl DivisionByZero
                 \<longleftrightarrow> idle \<noteq> 0 \<and> indexMul scaledTotal index = 0"
    by (auto simp: proportionIdle_def indexDiv_def rayDiv_def)
  have market_guard: "idleSupply m = 0 \<longrightarrow> marketProportionIdle m = Inr 0"
    by (simp add: marketProportionIdle_def proportionIdle_def)
  have places: "idleSupply m' \<noteq> 0
         \<and> indexMul (scaledP2PTotal (supplySide (deltas m'))) (p2pIndex (supplySide (indexes m'))) = 0
       \<longrightarrow> totalValueRaw irm pType m' r onPool = Inl DivisionByZero
           \<and> aprRate irm pType m' r onPool = Inl DivisionByZero"
    by (simp add: proportionIdle_def marketProportionIdle_def indexDiv_def rayDiv_def
        totalValueRaw_def aprRate_def)
  have bounded: "(\<exists>p. proportionIdle idle' scaledTotal' index' = Inr p \<and> p \<le> ONE)
           \<and> (scaledTotal' = 0 \<longrightarrow> proportionIdle idle' scaledTotal' index' = Inr 0)"
    if bound: "idle' \<le> indexMul scaledTotal' index'"
  proof (cases "idle' = 0")
    case True
    then show ?thesis by (simp add: proportionIdle_def)
  next
    case False
    with bound have pos: "indexMul scaledTotal' index' \<noteq> 0" by simp
    then have "scaledTotal' \<noteq> 0" by (cases "scaledTotal' = 0") simp_all
    with False pos show ?thesis
      by (simp add: proportionIdle_def indexDiv_def rayDiv_def)
  qed
  from guard fails market_guard places bounded show ?thesis by blast
qed

theorem proportionIdle_guard_witness:
  "idleSupply exampleMarket = 0
   \<and> marketProportionIdle exampleMarket = Inr 0
   \<and> idleSupply idleOnlyMarket \<noteq> 0
   \<and> indexMul (scaledP2PTotal (supplySide (deltas idleOnlyMarket)))
        (p2pIndex (supplySide (indexes idleOnlyMarket))) = 0
   \<and> totalValueRaw exampleIrm Supply idleOnlyMarket exampleReserve 500 = Inl DivisionByZero
   \<and> aprRate exampleIrm Supply idleOnlyMarket exampleReserve 500 = Inl DivisionByZero
   \<and> (0 :: nat) \<le> indexMul 0 (10 ^ 27)
   \<and> proportionIdle 0 0 (10 ^ 27) = Inr 0"
  using proportionIdle_guard [of 0 "10 ^ 27" 5 exampleMarket idleOnlyMarket exampleIrm Supply
      exampleReserve 500 0 0 "10 ^ 27"]
  by (simp add: exampleMarket_def idleOnlyMarket_def)

section \<open>The blended rate\<close>

text \<open>
  C2. When the reads of the APR computation and the interest-rate model succeed, the
  rate is returned, and it is the ray quotient of
  \<open>rayMul p2pRate p2pAmount + rayMul poolRate poolAmount\<close> by
  \<open>totalAmount = p2pAmount + poolAmount\<close>, rounded half up, where \<open>p2pAmount\<close> is the
  scaled peer-to-peer total times the new peer-to-peer index of the side; when
  \<open>totalAmount = 0\<close> it is the pool rate itself (\<open>currentLiquidityRate\<close> for a supply
  adapter, \<open>currentVariableBorrowRate\<close> otherwise) and nothing is divided.
\<close>

theorem blended_rate:
  assumes "fetchPoolMetadata ad protocolTokenAddress = Inr pm"
    and "market rd (address (underlyingToken pm)) blockTag = Inr m"
    and "getReserveData rd (address (underlyingToken pm)) blockTag = Inr r"
    and "balanceOf rd (if positionType ad = Supply then aToken m else variableDebtToken m)
           (morphoAddress ad) blockTag = Inr poolAmount"
    and "marketProportionIdle m = Inr pIdle"
    and "marketP2PIndexes (IRM ad) m r pIdle = Inr ix"
    and "positionType ad = Supply \<Longrightarrow>
           computeP2PSupplyRatePerYear (IRM ad) (newP2PSupplyIndex ix) pIdle (p2pIndexCursor m)
             (reserveFactor m) (supplySide (deltas m)) (currentVariableBorrowRate r)
             (currentLiquidityRate r) (liquidityIndex r) = Inr p2pRate"
    and "positionType ad \<noteq> Supply \<Longrightarrow>
           computeP2PBorrowRatePerYear (IRM ad) (newP2PBorrowIndex ix) pIdle (p2pIndexCursor m)
             (reserveFactor m) (borrowSide (deltas m)) (currentVariableBorrowRate r)
             (currentLiquidityRate r) (variableBorrowIndex r) = Inr p2pRate"
  shows "getProtocolTokenAprRate rd ad protocolTokenAddress blockTag =
           Inr (let p2pAmount =
                      (if positionType ad = Supply
                       then rayMul (scaledP2PTotal (supplySide (deltas m))) (newP2PSupplyIndex ix)
                       else rayMul (scaledP2PTotal (borrowSide (deltas m))) (newP2PBorrowIndex ix));
                    poolRate =
                      (if positionType ad = Supply then currentLiquidityRate r
                       else currentVariableBorrowRate r);
                    totalAmount = p2pAmount + poolAmount
                in if totalAmount = 0 then poolRate
                   else ((rayMul p2pRate p2pAmount + rayMul poolRate poolAmount) * RAY
                           + totalAmount div 2) div totalAmount)"
  using assms
  by (simp add: getProtocolTokenAprRate_def aprRate_def blendedRate_def rayDiv_def indexMul_def
      Let_def)

theorem blended_rate_witness:
  "getProtocolTokenAprRate exampleReader (exampleAdapter Supply) ''0xa'' None =
     Inr 36875000000000000000000000"
proof -
  have "getProtocolTokenAprRate exampleReader (exampleAdapter Supply) ''0xa'' None =
           Inr (let p2pAmount =
                      (if positionType (exampleAdapter Supply) = Supply
                       then rayMul (scaledP2PTotal (supplySide (deltas exampleMarket))) (11 * 10 ^ 26)
                       else rayMul (scaledP2PTotal (borrowSide (deltas exampleMarket))) (12 * 10 ^ 26));
                    poolRate =
                      (if positionType (exampleAdapter Supply) = Supply
                       then currentLiquidityRate exampleReserve
                       else currentVariableBorrowRate exampleReserve);
                    totalAmount = p2pAmount + 500
                in if totalAmount = 0 then poolRate
                   else ((rayMul (4 * 10 ^ 25) p2pAmount + rayMul poolRate 500) * RAY
                           + totalAmount div 2) div totalAmount)"
    using blended_rate [of "exampleAdapter Supply" "''0xa''"
        "\<lparr>protocolToken = exampleProtocolToken, underlyingToken = exampleUnderlyingToken\<rparr>"
        exampleReader None exampleMarket exampleReserve 500 0
        "\<lparr>newP2PSupplyIndex = 11 * 10 ^ 26, newP2PBorrowIndex = 12 * 10 ^ 26\<rparr>" "4 * 10 ^ 25"]
    by (simp add: example_defs fetchPoolMetadata_def marketProportionIdle_def proportionIdle_def
        marketP2PIndexes_def)
  then show ?thesis
    by (simp add: example_defs rayMul_def RAY_def Let_def)
qed

section \<open>Total value locked\<close>

lemma tvlOfToken_Inr_D:
  assumes "tvlOfToken rd ad blockTag t = Inr tvl"
  shows "address tvl = address t \<and>
         (\<exists>pm m r onPool pIdle ix.
            fetchPoolMetadata ad (address t) = Inr pm
          \<and> market rd (address (underlyingToken pm)) blockTag = Inr m
          \<and> getReserveData rd (address (underlyingToken pm)) blockTag = Inr r
          \<and> balanceOf rd (if positionType ad = Supply then aToken m else variableDebtToken m)
               (morphoAddress ad) blockTag = Inr onPool
          \<and> marketProportionIdle m = Inr pIdle
          \<and> marketP2PIndexes (IRM ad) m r pIdle = Inr ix
          \<and> totalSupplyRaw tvl =
               rayMul (scaledP2PTotal (if positionType ad = Supply then supplySide (deltas m)
                                       else borrowSide (deltas m)))
                 (if positionType ad = Supply then newP2PSupplyIndex ix else newP2PBorrowIndex ix)
               + onPool)"
  using assms
  by (auto simp: tvlOfToken_def totalValueRaw_def bindR_Inr_iff indexMul_def Let_def
      split: if_splits)

text \<open>
  The total value of a token is returned as soon as its reads, the idle proportion and
  the interest-rate model succeed.
\<close>

lemma tvlOfToken_returns:
  assumes "fetchPoolMetadata ad (address t) = Inr pm"
    and "market rd (address (underlyingToken pm)) blockTag = Inr m"
    and "getReserveData rd (address (underlyingToken pm)) blockTag = Inr r"
    and "balanceOf rd (if positionType ad = Supply then aToken m else variableDebtToken m)
           (morphoAddress ad) blockTag = Inr onPool"
    and "marketProportionIdle m = Inr pIdle"
    and "marketP2PIndexes (IRM ad) m r pIdle = Inr ix"
  shows "\<exists>tvl. tvlOfToken rd ad blockTag t = Inr tvl"
  using assms by (simp add: tvlOfToken_def totalValueRaw_def Let_def)

text \<open>
  C3. In a result of \<open>getTotalValueLocked\<close> there is one entry per protocol token, in
  order, and its total is the ray product of the scaled peer-to-peer total of the
  adapter's side (supply for a supply adapter, borrow otherwise) and the new peer-to-peer
  index of that side, computed by the interest-rate model from the market just read,
  plus the balance held on the pool. In the witness the scaled total is \<open>1000\<close>, the new
  index \<open>1.1\<close> ray and the pool holds \<open>500\<close>: the total is \<open>1600\<close>.
\<close>

theorem getTotalValueLocked_total:
  assumes "getTotalValueLocked rd ad blockTag = Inr tvls"
  shows "list_all2
           (\<lambda>t tvl. address tvl = address t \<and>
              (\<exists>pm m r onPool pIdle ix.
                 fetchPoolMetadata ad (address t) = Inr pm
               \<and> market rd (address (underlyingToken pm)) blockTag = Inr m
               \<and> getReserveData rd (address (underlyingToken pm)) blockTag = Inr r
               \<and> balanceOf rd (if positionType ad = Supply then aToken m else variableDebtToken m)
                    (morphoAddress ad) blockTag = Inr onPool
               \<and> marketProportionIdle m = Inr pIdle
               \<and> marketP2PIndexes (IRM ad) m r pIdle = Inr ix
               \<and> totalSupplyRaw tvl =
                    rayMul (scaledP2PTotal (if positionType ad = Supply then supplySide (deltas m)
                                            else borrowSide (deltas m)))
                      (if positionType ad = Supply then newP2PSupplyIndex ix
                       else newP2PBorrowIndex ix)
                    + onPool))
           (getProtocolTokens ad) tvls"
proof -
  from assms have
    "list_all2 (\<lambda>t tvl. tvlOfToken rd ad blockTag t = Inr tvl) (getProtocolTokens ad) tvls"
    unfolding getTotalValueLocked_def by (rule mapR_Inr_D)
  then show ?thesis
    by (rule list_all2_mono) (rule tvlOfToken_Inr_D)
qed

theorem getTotalValueLocked_total_witness:
  "getTotalValueLocked exampleReader (exampleAdapter Supply) None =
     Inr [\<lparr>address = ''0xa'', name = ''Aave WETH'', symbol = ''aWETH'', decimals = 18,
           tvlTokenType = Protocol, totalSupplyRaw = 1600\<rparr>]
   \<and> (\<exists>m r onPool pIdle ix.
        market exampleReader ''0xc'' None = Inr m
      \<and> getReserveData exampleReader ''0xc'' None = Inr r
      \<and> balanceOf exampleReader (aToken m) ''0x3'' None = Inr onPool
      \<and> marketProportionIdle m = Inr pIdle
      \<and> marketP2PIndexes exampleIrm m r pIdle = Inr ix
      \<and> scaledP2PTotal (supplySide (deltas m)) = 1000
      \<and> newP2PSupplyIndex ix = 11 * 10 ^ 26
      \<and> onPool = 500
      \<and> 1600 = rayMul (scaledP2PTotal (supplySide (deltas m))) (newP2PSupplyIndex ix) + onPool)"
proof -
  note h = example_tvl_supply
  from getTotalValueLocked_total [OF h] obtain m r onPool pIdle ix where
    "market exampleReader ''0xc'' None = Inr m"
    "getReserveData exampleReader ''0xc'' None = Inr r"
    "balanceOf exampleReader (aToken m) ''0x3'' None = Inr onPool"
    "marketProportionIdle m = Inr pIdle"
    "marketP2PIndexes exampleIrm m r pIdle = Inr ix"
    "1600 = rayMul (scaledP2PTotal (supplySide (deltas m))) (newP2PSupplyIndex ix) + onPool"
    by (auto simp: getProtocolTokens_def fetchPoolMetadata_def exampleAdapter_def
        exampleProtocolToken_def exampleUnderlyingToken_def)
  moreover from this have "scaledP2PTotal (supplySide (deltas m)) = 1000"
    "newP2PSupplyIndex ix = 11 * 10 ^ 26" "onPool = 500"
    by (auto simp: exampleReader_def exampleMarket_def exampleIrm_def marketP2PIndexes_def)
  ultimately show ?thesis using h by blast
qed

section \<open>Profits\<close>

lemma profitOfEntry_Inr_D:
  assumes "profitOfEntry rd ad startPositionValues userAddress fromBlock toBlock entry = Inr pp"
  shows "\<exists>eventsOut eventsIn.
           movementSums rd ad userAddress (address (protocolTokenMetadata entry)) fromBlock toBlock
             = Inr (eventsOut, eventsIn)
         \<and> profitTokens pp =
             map (\<lambda>(k, endPosition).
                    profitOfUnderlying (positionType ad) startPositionValues
                      (address (protocolTokenMetadata entry)) eventsOut eventsIn endPosition)
               (underlyingTokenPositions entry)"
  using assms by (auto simp: profitOfEntry_def Let_def bindR_Inr_iff)

lemma getProfits_Inr_D:
  assumes "getProfits rd ad fmt userAddress fromBlock toBlock = Inr res"
  shows "\<exists>endPositions startPositions.
           getPositions rd ad userAddress (Some toBlock) = Inr endPositions
         \<and> getPositions rd ad userAddress (Some fromBlock) = Inr startPositions
         \<and> mapR (\<lambda>(k, entry).
                    profitOfEntry rd ad (fmt startPositions) userAddress fromBlock toBlock entry)
              (fmt endPositions) = Inr (profits res)"
  using assms by (auto simp: getProfits_def Let_def bindR_Inr_iff)

lemma profitOfUnderlying_profitRaw:
  "profitRaw (profitOfUnderlying pType startPositionValues protocolTokenAddress eventsOut eventsIn
       endPosition) =
     (if pType = Borrow then - 1 else 1) *
       (balanceRaw endPosition + orZero (eventsOut (address endPosition))
          - orZero (eventsIn (address endPosition))
          - startValueOf startPositionValues protocolTokenAddress (address endPosition))"
  by (simp add: profitOfUnderlying_def Let_def)

lemma profitOfUnderlying_address:
  "address (profitOfUnderlying pType startPositionValues protocolTokenAddress eventsOut eventsIn
       endPosition) = address endPosition"
  by (simp add: profitOfUnderlying_def Let_def)

text \<open>
  Every underlying token \<open>tk\<close> of a \<open>getProfits\<close> result comes from an underlying end
  position of an entry of the formatted end positions, and its \<open>profitRaw\<close> is the end
  position value plus the entry of its address in the outflow map, minus the entry in
  the inflow map, minus the start position value, where a missing entry and a missing
  start position count as \<open>0\<close>; the whole is multiplied by \<open>-1\<close> when the adapter's
  position type is \<open>Borrow\<close>. The two maps are those of \<open>movementSums\<close>.
\<close>

lemma getProfits_profitRaw_over_maps:
  assumes "getProfits rd ad fmt userAddress fromBlock toBlock = Inr res"
    and "pp \<in> set (profits res)"
    and "tk \<in> set (profitTokens pp)"
  shows "\<exists>endPositions startPositions k entry eventsOut eventsIn k' endPosition.
           getPositions rd ad userAddress (Some toBlock) = Inr endPositions
         \<and> getPositions rd ad userAddress (Some fromBlock) = Inr startPositions
         \<and> (k, entry) \<in> set (fmt endPositions)
         \<and> movementSums rd ad userAddress (address (protocolTokenMetadata entry)) fromBlock toBlock
             = Inr (eventsOut, eventsIn)
         \<and> (k', endPosition) \<in> set (underlyingTokenPositions entry)
         \<and> address tk = address endPosition
         \<and> profitRaw tk =
             (if positionType ad = Borrow then - 1 else 1) *
               (balanceRaw endPosition + orZero (eventsOut (address endPosition))
                  - orZero (eventsIn (address endPosition))
                  - startValueOf (fmt startPositions) (address (protocolTokenMetadata entry))
                      (address endPosition))"
proof -
  from getProfits_Inr_D [OF assms(1)] obtain endPositions startPositions where
    e: "getPositions rd ad userAddress (Some toBlock) = Inr endPositions"
    and s: "getPositions rd ad userAddress (Some fromBlock) = Inr startPositions"
    and m: "mapR (\<lambda>(k, entry).
                    profitOfEntry rd ad (fmt startPositions) userAddress fromBlock toBlock entry)
              (fmt endPositions) = Inr (profits res)"
    by blast
  from mapR_member [OF m assms(2)] obtain k entry where
    ke: "(k, entry) \<in> set (fmt endPositions)"
    and pe: "profitOfEntry rd ad (fmt startPositions) userAddress fromBlock toBlock entry = Inr pp"
    by auto
  from profitOfEntry_Inr_D [OF pe] obtain eventsOut eventsIn where
    ms: "movementSums rd ad userAddress (address (protocolTokenMetadata entry)) fromBlock toBlock
             = Inr (eventsOut, eventsIn)"
    and pt: "profitTokens pp =
             map (\<lambda>(k, endPosition).
                    profitOfUnderlying (positionType ad) (fmt startPositions)
                      (address (protocolTokenMetadata entry)) eventsOut eventsIn endPosition)
               (underlyingTokenPositions entry)"
    by blast
  from assms(3) pt obtain k' endPosition where
    mem: "(k', endPosition) \<in> set (underlyingTokenPositions entry)"
    and tk: "tk = profitOfUnderlying (positionType ad) (fmt startPositions)
                      (address (protocolTokenMetadata entry)) eventsOut eventsIn endPosition"
    by auto
  from tk have "address tk = address endPosition"
    by (simp add: profitOfUnderlying_address)
  moreover from tk have "profitRaw tk =
             (if positionType ad = Borrow then - 1 else 1) *
               (balanceRaw endPosition + orZero (eventsOut (address endPosition))
                  - orZero (eventsIn (address endPosition))
                  - startValueOf (fmt startPositions) (address (protocolTokenMetadata entry))
                      (address endPosition))"
    by (simp add: profitOfUnderlying_profitRaw)
  ultimately show ?thesis using e s ke ms mem by blast
qed

text \<open>
  For an adapter that is not a supply adapter the two maps are the event totals of the
  spec: the borrows and the repays are each one kind of event.
\<close>

lemma movementSums_not_supply:
  "positionType ad \<noteq> Supply \<Longrightarrow>
     movementSums rd ad userAddress protocolTokenAddress fromBlock toBlock =
       specMovementSums rd ad userAddress protocolTokenAddress fromBlock toBlock"
  by (simp add: movementSums_def specMovementSums_def)

text \<open>
  C4. The claim is that the reported \<open>profitRaw\<close> of an underlying token is its end
  position value plus its aggregated outflow events, minus its aggregated inflow
  events, minus its start position value. On the example chain the supply adapter
  returns one protocol token with one underlying token; the end value is \<open>320\<close>, the
  start value \<open>200\<close>, the events of the token sum to an outflow of \<open>30\<close> and an inflow
  of \<open>150\<close>, so that the profit due is \<open>320 + 30 - 150 - 200 = 0\<close>; the reported
  \<open>profitRaw\<close> is \<open>100\<close>, because the inflow that enters the formula holds the
  collateral deposits only (see C5).
\<close>

theorem getProfits_profit_drops_plain_deposits:
  "getProfits exampleReader (exampleAdapter Supply) positionsByAddress ''0xu'' 10 20
     = Inr \<lparr>profits =
              [\<lparr>address = ''0xa'', name = ''Aave WETH'', symbol = ''aWETH'', decimals = 18,
                protocolProfitType = Protocol, profitTokens = [exampleProfitToken]\<rparr>],
            rangeFromBlock = 10, rangeToBlock = 20\<rparr>
   \<and> profitRaw exampleProfitToken = 100
   \<and> endPositionValueRaw (calculationData exampleProfitToken) = 320
   \<and> startPositionValueRaw (calculationData exampleProfitToken) = 200
   \<and> map_sum id (\<lambda>(eventsOut, eventsIn). (orZero (eventsOut ''0xc''), orZero (eventsIn ''0xc'')))
       (specMovementSums exampleReader (exampleAdapter Supply) ''0xu'' ''0xa'' 10 20)
       = Inr (30, 150)
   \<and> (320 :: int) + 30 - 150 - 200 = 0"
  using example_profits_supply
  by (simp add: example_defs movement_defs fetchPoolMetadata_def fetchProtocolTokenMetadata_def
      specMovementSums_def aggregateTrades_def addTrade_def orZero_def exampleProfitToken_def
      exampleProfits_def exampleProtocolProfit_def)

text \<open>
  C5. The claim is that the inflow total of a token, for a supply adapter, is the sum
  of its plain deposits and its collateral deposits (and the outflow total likewise).
  On the example chain the logs hold a plain deposit of \<open>100\<close> and a collateral deposit
  of \<open>50\<close> of the same token, each aggregated correctly on its own; the merged inflow
  is \<open>50\<close>, not \<open>150\<close>, because the object spread lets the collateral sum replace the
  plain sum, and the reported profit is \<open>100\<close> where \<open>320 + 30 - 150 - 200 = 0\<close> is due.
\<close>

theorem getProfits_collateral_replaces_deposits:
  "map_sum id (\<lambda>ms. aggregateTrades ms ''0xc'')
       (getDeposits exampleReader (exampleAdapter Supply) ''0xu'' ''0xa'' 10 20) = Inr (Some 100)
   \<and> map_sum id (\<lambda>ms. aggregateTrades ms ''0xc'')
       (getCollateralDeposits exampleReader (exampleAdapter Supply) ''0xu'' ''0xa'' 10 20)
       = Inr (Some 50)
   \<and> map_sum id (\<lambda>(eventsOut, eventsIn). (eventsOut ''0xc'', eventsIn ''0xc''))
       (movementSums exampleReader (exampleAdapter Supply) ''0xu'' ''0xa'' 10 20)
       = Inr (Some 30, Some 50)
   \<and> getProfits exampleReader (exampleAdapter Supply) positionsByAddress ''0xu'' 10 20
       = Inr exampleProfits
   \<and> depositsRaw (calculationData exampleProfitToken) = 50
   \<and> profitRaw exampleProfitToken = 100"
  using example_profits_supply
  by (simp add: example_defs movement_defs fetchPoolMetadata_def fetchProtocolTokenMetadata_def
      movementSums_def aggregateTrades_def addTrade_def exampleProfitToken_def)

text \<open>
  C6. The event type that \<open>getDeposits\<close> passes on, \<^verbatim>\<open>'supplied' || 'collat-supplied'\<close>, is
  \<open>supplied\<close>: \<open>getDeposits\<close> is the movement query of type \<open>supplied\<close>, it reads the logs
  through the filter \<open>Supplied\<close> only, and its result does not change when the logs of
  \<open>CollateralSupplied\<close> events are replaced by any others.
\<close>

theorem getDeposits_event_type:
  "js_or supplied collat_supplied = supplied
   \<and> getDeposits rd ad userAddress protocolTokenAddress fromBlock toBlock
       = getMovements rd ad userAddress protocolTokenAddress fromBlock toBlock supplied
   \<and> getDeposits rd ad userAddress protocolTokenAddress fromBlock toBlock
       = bindR (queryFilter rd protocolTokenAddress Supplied userAddress fromBlock toBlock)
           (\<lambda>eventResults. bindR (mapR (movementOfEvent ad) eventResults)
              (\<lambda>movements. Inr (List.map_filter (\<lambda>movement. movement) movements)))
   \<and> getDeposits (rd\<lparr>queryFilter := (\<lambda>c flt. if flt = CollateralSupplied then q c flt
                                              else queryFilter rd c flt)\<rparr>)
         ad userAddress protocolTokenAddress fromBlock toBlock
       = getDeposits rd ad userAddress protocolTokenAddress fromBlock toBlock"
  by (simp add: getDeposits_def js_or_def getMovements_def)

text \<open>
  C7. For the same start and end position values and the same aggregated event sums,
  the profit that a supply-position adapter computes for an underlying token and the
  profit that a borrow-position adapter computes are exact negatives of one another.
\<close>

theorem profit_sign_inversion:
  "profitRaw (profitOfUnderlying Supply startPositionValues protocolTokenAddress eventsOut
       eventsIn endPosition)
     = - profitRaw (profitOfUnderlying Borrow startPositionValues protocolTokenAddress eventsOut
           eventsIn endPosition)"
  by (simp add: profitOfUnderlying_def Let_def)

section \<open>Token metadata resolution\<close>

text \<open>
  C8, as the spec states it: for every token address and chain the file cache is
  consulted first, the chain second, and an error is thrown only when both fail. The
  REUSD token on Ethereum is answered from a hard-coded record although the file holds an
  entry for it, and an address that \<open>getAddress\<close> rejects (here WETH with a wrong
  checksum) is an error although the file holds the token.
\<close>

theorem getTokenMetadata_cache_first_counterexample:
  "getTokenMetadata exampleTokenEnv REAL_ESTATE_TOKEN_ADDRESS Ethereum =
     Inr \<lparr>address = REAL_ESTATE_TOKEN_ADDRESS, name = ''Real Estate USD (REUSD)'',
          symbol = ''Real Estate USD (REUSD)'', decimals = 18\<rparr>
   \<and> fileTokenMetadata exampleTokenEnv REAL_ESTATE_TOKEN_ADDRESS Ethereum =
       Some \<lparr>address = toLowerCase REAL_ESTATE_TOKEN_ADDRESS, name = ''Cached REUSD'',
            symbol = ''REUSD'', decimals = 18\<rparr>
   \<and> getTokenMetadata exampleTokenEnv wethBadChecksum Ethereum = Inl InvalidAddress
   \<and> fileTokenMetadata exampleTokenEnv wethBadChecksum Ethereum =
       Some \<lparr>address = wethLower, name = ''Wrapped Ether'', symbol = ''WETH'', decimals = 18\<rparr>"
  by (simp add: getTokenMetadata_def getAddressR_def fileTokenMetadata_def CHAIN_METADATA_def
      token_example_defs)

text \<open>
  C8, amended: for every token address that \<open>getAddress\<close> accepts and that is neither
  the REUSD token on Ethereum nor a native token address, the file cache is consulted
  first, under the lower-case address, and its entry is returned with the address in
  checksum form (an error if \<open>getAddress\<close> rejects the stored address); on a miss the
  token is looked up on chain; and the error \<open>TokenMetadataNotFound\<close> is thrown exactly
  when the file has no entry and the chain lookup fails.
\<close>

theorem getTokenMetadata_resolution:
  assumes "getAddress env REAL_ESTATE_TOKEN_ADDRESS = Some realEstateAddress"
    and "getAddress env tokenAddress = Some checksummed"
    and "\<not> (checksummed = realEstateAddress \<and> chainId = Ethereum)"
    and "tokenAddress \<notin> set (nativeTokenAddresses env)"
  shows "(case fileTokenMetadata env tokenAddress chainId of
            Some cached \<Rightarrow>
              getTokenMetadata env tokenAddress chainId =
                (case getAddress env (address cached) of
                   None \<Rightarrow> Inl InvalidAddress
                 | Some a \<Rightarrow> Inr \<lparr>address = a, name = name cached, symbol = symbol cached,
                                  decimals = decimals cached\<rparr>)
          | None \<Rightarrow>
              getTokenMetadata env tokenAddress chainId =
                (case getOnChainTokenMetadata env tokenAddress of
                   Some onChainTokenMetadata \<Rightarrow> Inr onChainTokenMetadata
                 | None \<Rightarrow> Inl TokenMetadataNotFound))
       \<and> (getTokenMetadata env tokenAddress chainId = Inl TokenMetadataNotFound \<longleftrightarrow>
            fileTokenMetadata env tokenAddress chainId = None
            \<and> getOnChainTokenMetadata env tokenAddress = None)"
  using assms
  by (auto simp: getTokenMetadata_def getAddressR_def split: option.splits)

theorem getTokenMetadata_resolution_witness:
  "getTokenMetadata exampleTokenEnv wethLower Ethereum =
     Inr \<lparr>address = wethChecksum, name = ''Wrapped Ether'', symbol = ''WETH'', decimals = 18\<rparr>
   \<and> getTokenMetadata exampleTokenEnv wethLower Ethereum \<noteq> Inl TokenMetadataNotFound"
proof -
  have a: "getAddress exampleTokenEnv REAL_ESTATE_TOKEN_ADDRESS = Some REAL_ESTATE_TOKEN_ADDRESS"
    by (simp add: exampleTokenEnv_def exampleGetAddress_def)
  have b: "getAddress exampleTokenEnv wethLower = Some wethChecksum"
    by (simp add: token_example_defs)
  have c: "\<not> (wethChecksum = REAL_ESTATE_TOKEN_ADDRESS \<and> Ethereum = Ethereum)"
    by (simp add: wethChecksum_def REAL_ESTATE_TOKEN_ADDRESS_def)
  have d: "wethLower \<notin> set (nativeTokenAddresses exampleTokenEnv)"
    by (simp add: exampleTokenEnv_def wethLower_def)
  have f: "fileTokenMetadata exampleTokenEnv wethLower Ethereum =
             Some \<lparr>address = wethLower, name = ''Wrapped Ether'', symbol = ''WETH'', decimals = 18\<rparr>"
    by (simp add: fileTokenMetadata_def CHAIN_METADATA_def token_example_defs)
  from getTokenMetadata_resolution [OF a b c d] f b show ?thesis
    by simp
qed

text \<open>
  Whatever the token, \<open>TokenMetadataNotFound\<close> is thrown only after the file cache and
  the chain lookup have both failed.
\<close>

lemma getTokenMetadata_not_found_only:
  "getTokenMetadata env tokenAddress chainId = Inl TokenMetadataNotFound \<Longrightarrow>
     fileTokenMetadata env tokenAddress chainId = None
     \<and> getOnChainTokenMetadata env tokenAddress = None"
  by (auto simp: getTokenMetadata_def getAddressR_def bindR_def
      split: option.splits sum.splits if_splits)

section \<open>Positions\<close>

lemma getBalance_Inr_D:
  assumes "getBalance rd ad mkt userAddress blockTag = Inr bal"
  shows "if positionType ad = Supply
         then \<exists>s c. supplyBalance rd (address mkt) userAddress blockTag = Inr s
                   \<and> collateralBalance rd (address mkt) userAddress blockTag = Inr c
                   \<and> bal = int s + int c
         else \<exists>b. borrowBalance rd (address mkt) userAddress blockTag = Inr b \<and> bal = int b"
  using assms by (auto simp: getBalance_def bindR_Inr_iff split: if_splits)

lemma protocolTokenBalanceOf_Inr_D:
  assumes "protocolTokenBalanceOf rd ad userAddress blockTag mkt = Inr (addr, bal)"
  shows "addr = address mkt \<and>
         (\<exists>pm. fetchPoolMetadata ad addr = Inr pm
              \<and> getBalance rd ad (underlyingToken pm) userAddress blockTag = Inr bal)"
  using assms by (auto simp: protocolTokenBalanceOf_def bindR_Inr_iff)

lemma completePosition_Inr_D:
  assumes "completePosition ad (addr, bal) = Inr p"
  shows "address p = addr \<and> balanceRaw p = bal \<and> balance p = bal \<and> tokenType p = Protocol \<and>
         (\<exists>pm. fetchPoolMetadata ad addr = Inr pm
              \<and> name p = name (protocolToken pm) \<and> symbol p = symbol (protocolToken pm)
              \<and> decimals p = decimals (protocolToken pm)
              \<and> tokens p = [\<lparr>address = address (underlyingToken pm),
                               name = name (underlyingToken pm),
                               symbol = symbol (underlyingToken pm),
                               decimals = decimals (underlyingToken pm),
                               balanceRaw = bal, tokenType = Underlying\<rparr>])"
  using assms
  by (auto simp: completePosition_def fetchProtocolTokenMetadata_def
      getUnderlyingTokenBalances_def bindR_Inr_iff Let_def)

lemma getPositions_Inr_D:
  assumes "getPositions rd ad userAddress blockTag = Inr ps"
  shows "\<exists>pbs. mapR (protocolTokenBalanceOf rd ad userAddress blockTag) (getProtocolTokens ad)
               = Inr pbs
             \<and> mapR (completePosition ad) (filter (\<lambda>(addr, bal). bal \<noteq> 0) pbs) = Inr ps"
  using assms by (auto simp: getPositions_def bindR_Inr_iff)

lemma getPositions_entry:
  assumes "getPositions rd ad userAddress blockTag = Inr ps" and "p \<in> set ps"
  shows "balanceRaw p \<noteq> 0 \<and>
         (\<exists>pm. fetchPoolMetadata ad (address p) = Inr pm
              \<and> getBalance rd ad (underlyingToken pm) userAddress blockTag = Inr (balanceRaw p)
              \<and> completePosition ad (address p, balanceRaw p) = Inr p)"
proof -
  from getPositions_Inr_D [OF assms(1)] obtain pbs where
    pbs: "mapR (protocolTokenBalanceOf rd ad userAddress blockTag) (getProtocolTokens ad) = Inr pbs"
    and all: "mapR (completePosition ad) (filter (\<lambda>(addr, bal). bal \<noteq> 0) pbs) = Inr ps"
    by blast
  from mapR_member [OF all assms(2)] obtain pb where
    pb: "pb \<in> set (filter (\<lambda>(addr, bal). bal \<noteq> 0) pbs)"
    and cp: "completePosition ad pb = Inr p"
    by blast
  obtain addr bal where pb_eq: "pb = (addr, bal)" by (cases pb)
  from pb pb_eq have nz: "bal \<noteq> 0" and mem: "(addr, bal) \<in> set pbs" by auto
  from cp pb_eq completePosition_Inr_D have ap: "address p = addr" "balanceRaw p = bal" by blast+
  from mapR_member [OF pbs mem] obtain mkt where
    "protocolTokenBalanceOf rd ad userAddress blockTag mkt = Inr (addr, bal)" by blast
  from protocolTokenBalanceOf_Inr_D [OF this] obtain pm where
    "fetchPoolMetadata ad addr = Inr pm"
    "getBalance rd ad (underlyingToken pm) userAddress blockTag = Inr bal" by blast
  with nz ap cp pb_eq show ?thesis by auto
qed

text \<open>
  The positions returned are those of the protocol tokens with a non-zero balance, in
  the order of the tokens.
\<close>

lemma getPositions_complete:
  assumes "getPositions rd ad userAddress blockTag = Inr ps"
  shows "\<exists>pbs. mapR (protocolTokenBalanceOf rd ad userAddress blockTag) (getProtocolTokens ad)
               = Inr pbs
             \<and> map (\<lambda>p. (address p, balanceRaw p)) ps = filter (\<lambda>(addr, bal). bal \<noteq> 0) pbs"
proof -
  from getPositions_Inr_D [OF assms] obtain pbs where
    pbs: "mapR (protocolTokenBalanceOf rd ad userAddress blockTag) (getProtocolTokens ad) = Inr pbs"
    and all: "mapR (completePosition ad) (filter (\<lambda>(addr, bal). bal \<noteq> 0) pbs) = Inr ps"
    by blast
  from mapR_Inr_D [OF all] have
    "list_all2 (\<lambda>pb p. (address p, balanceRaw p) = pb) (filter (\<lambda>(addr, bal). bal \<noteq> 0) pbs) ps"
    by (rule list_all2_mono) (auto dest: completePosition_Inr_D)
  then have "map (\<lambda>p. (address p, balanceRaw p)) ps = filter (\<lambda>(addr, bal). bal \<noteq> 0) pbs"
    by (induction rule: list_all2_induct) simp_all
  with pbs show ?thesis by blast
qed

lemma mapR_returns:
  assumes "\<forall>x \<in> set xs. \<exists>y. f x = Inr y"
  shows "\<exists>ys. mapR f xs = Inr ys"
  using assms
proof (induction xs)
  case Nil
  then show ?case by simp
next
  case (Cons x xs)
  then obtain y ys where "f x = Inr y" "mapR f xs = Inr ys" by auto
  then show ?case by simp
qed

lemma completePosition_returns:
  assumes "fetchPoolMetadata ad addr = Inr pm"
  shows "\<exists>p. completePosition ad (addr, bal) = Inr p"
  using assms
  by (simp add: completePosition_def fetchProtocolTokenMetadata_def
      getUnderlyingTokenBalances_def Let_def)

lemma protocolTokenBalanceOf_reads:
  assumes "protocolTokenBalanceOf rd ad userAddress blockTag mkt = Inr pb"
  shows "fst pb = address mkt \<and>
         (\<exists>pm. fetchPoolMetadata ad (address mkt) = Inr pm \<and>
            (if positionType ad = Supply
             then \<exists>s c. supplyBalance rd (address (underlyingToken pm)) userAddress blockTag = Inr s
                   \<and> collateralBalance rd (address (underlyingToken pm)) userAddress blockTag = Inr c
                   \<and> snd pb = int s + int c
             else \<exists>b. borrowBalance rd (address (underlyingToken pm)) userAddress blockTag = Inr b
                   \<and> snd pb = int b))"
proof -
  obtain addr bal where pb: "pb = (addr, bal)" by (cases pb)
  from protocolTokenBalanceOf_Inr_D [OF assms [unfolded pb]] obtain pm where
    "addr = address mkt" "fetchPoolMetadata ad addr = Inr pm"
    "getBalance rd ad (underlyingToken pm) userAddress blockTag = Inr bal"
    by blast
  with getBalance_Inr_D [of rd ad "underlyingToken pm" userAddress blockTag bal] pb
  show ?thesis by auto
qed

text \<open>
  C9. For a user and a block, \<open>getPositions\<close> reads one balance per protocol token,
  in the order of the tokens, for the underlying token of its market at that block:
  the supply balance plus the collateral balance when the adapter's position type is
  \<open>Supply\<close>, the borrow balance otherwise. The positions it returns are those balances
  that are not \<open>0\<close>, in that order, each under the address of its protocol token, so
  that no returned position has a raw balance of \<open>0\<close>. It returns whenever the pool
  metadata of every protocol token is found and its balance is read.
\<close>

theorem getPositions_balances:
  "(getPositions rd ad userAddress blockTag = Inr ps \<longrightarrow>
      (\<exists>pbs.
         list_all2
           (\<lambda>mkt pb. fst pb = address mkt \<and>
              (\<exists>pm. fetchPoolMetadata ad (address mkt) = Inr pm \<and>
                 (if positionType ad = Supply
                  then \<exists>s c.
                         supplyBalance rd (address (underlyingToken pm)) userAddress blockTag = Inr s
                       \<and> collateralBalance rd (address (underlyingToken pm)) userAddress blockTag
                           = Inr c
                       \<and> snd pb = int s + int c
                  else \<exists>b.
                         borrowBalance rd (address (underlyingToken pm)) userAddress blockTag = Inr b
                       \<and> snd pb = int b)))
           (getProtocolTokens ad) pbs
       \<and> map (\<lambda>p. (address p, balanceRaw p)) ps = filter (\<lambda>pb. snd pb \<noteq> 0) pbs)
      \<and> (\<forall>p \<in> set ps. balanceRaw p \<noteq> 0))
   \<and> ((\<forall>mkt \<in> set (getProtocolTokens ad).
          \<exists>pm bal. fetchPoolMetadata ad (address mkt) = Inr pm
                 \<and> getBalance rd ad (underlyingToken pm) userAddress blockTag = Inr bal)
       \<longrightarrow> (\<exists>ps'. getPositions rd ad userAddress blockTag = Inr ps'))"
proof (intro conjI impI)
  assume ret: "getPositions rd ad userAddress blockTag = Inr ps"
  from getPositions_Inr_D [OF ret] obtain pbs where
    pbs: "mapR (protocolTokenBalanceOf rd ad userAddress blockTag) (getProtocolTokens ad) = Inr pbs"
    and all: "mapR (completePosition ad) (filter (\<lambda>(addr, bal). bal \<noteq> 0) pbs) = Inr ps"
    by blast
  have flt: "filter (\<lambda>(addr, bal). bal \<noteq> 0) pbs = filter (\<lambda>pb. snd pb \<noteq> 0) pbs"
    by (simp add: case_prod_unfold)
  from mapR_Inr_D [OF pbs] have reads:
    "list_all2
           (\<lambda>mkt pb. fst pb = address mkt \<and>
              (\<exists>pm. fetchPoolMetadata ad (address mkt) = Inr pm \<and>
                 (if positionType ad = Supply
                  then \<exists>s c.
                         supplyBalance rd (address (underlyingToken pm)) userAddress blockTag = Inr s
                       \<and> collateralBalance rd (address (underlyingToken pm)) userAddress blockTag
                           = Inr c
                       \<and> snd pb = int s + int c
                  else \<exists>b.
                         borrowBalance rd (address (underlyingToken pm)) userAddress blockTag = Inr b
                       \<and> snd pb = int b)))
           (getProtocolTokens ad) pbs"
    by (rule list_all2_mono) (rule protocolTokenBalanceOf_reads)
  from mapR_Inr_D [OF all] have
    "list_all2 (\<lambda>pb p. (address p, balanceRaw p) = pb) (filter (\<lambda>(addr, bal). bal \<noteq> 0) pbs) ps"
    by (rule list_all2_mono) (auto dest: completePosition_Inr_D)
  then have "map (\<lambda>p. (address p, balanceRaw p)) ps = filter (\<lambda>(addr, bal). bal \<noteq> 0) pbs"
    by (induction rule: list_all2_induct) simp_all
  with flt have eq: "map (\<lambda>p. (address p, balanceRaw p)) ps = filter (\<lambda>pb. snd pb \<noteq> 0) pbs"
    by simp
  from reads eq show "\<exists>pbs.
         list_all2
           (\<lambda>mkt pb. fst pb = address mkt \<and>
              (\<exists>pm. fetchPoolMetadata ad (address mkt) = Inr pm \<and>
                 (if positionType ad = Supply
                  then \<exists>s c.
                         supplyBalance rd (address (underlyingToken pm)) userAddress blockTag = Inr s
                       \<and> collateralBalance rd (address (underlyingToken pm)) userAddress blockTag
                           = Inr c
                       \<and> snd pb = int s + int c
                  else \<exists>b.
                         borrowBalance rd (address (underlyingToken pm)) userAddress blockTag = Inr b
                       \<and> snd pb = int b)))
           (getProtocolTokens ad) pbs
       \<and> map (\<lambda>p. (address p, balanceRaw p)) ps = filter (\<lambda>pb. snd pb \<noteq> 0) pbs"
    by blast
  show "\<forall>p \<in> set ps. balanceRaw p \<noteq> 0"
  proof
    fix p assume "p \<in> set ps"
    from getPositions_entry [OF ret this] show "balanceRaw p \<noteq> 0" by blast
  qed
next
  assume found: "\<forall>mkt \<in> set (getProtocolTokens ad).
          \<exists>pm bal. fetchPoolMetadata ad (address mkt) = Inr pm
                 \<and> getBalance rd ad (underlyingToken pm) userAddress blockTag = Inr bal"
  then have "\<forall>mkt \<in> set (getProtocolTokens ad).
               \<exists>pb. protocolTokenBalanceOf rd ad userAddress blockTag mkt = Inr pb"
    by (auto simp: protocolTokenBalanceOf_def)
  from mapR_returns [OF this] obtain pbs where
    pbs: "mapR (protocolTokenBalanceOf rd ad userAddress blockTag) (getProtocolTokens ad) = Inr pbs"
    by blast
  have "\<forall>pb \<in> set (filter (\<lambda>(addr, bal). bal \<noteq> 0) pbs). \<exists>p. completePosition ad pb = Inr p"
  proof
    fix pb assume "pb \<in> set (filter (\<lambda>(addr, bal). bal \<noteq> 0) pbs)"
    then have mem: "pb \<in> set pbs" by simp
    obtain addr bal where pb: "pb = (addr, bal)" by (cases pb)
    from mapR_member [OF pbs mem] pb obtain mkt where
      "protocolTokenBalanceOf rd ad userAddress blockTag mkt = Inr (addr, bal)" by auto
    from protocolTokenBalanceOf_Inr_D [OF this] obtain pm where
      "fetchPoolMetadata ad addr = Inr pm" by blast
    from completePosition_returns [OF this] pb show "\<exists>p. completePosition ad pb = Inr p"
      by simp
  qed
  from mapR_returns [OF this] obtain ps' where
    "mapR (completePosition ad) (filter (\<lambda>(addr, bal). bal \<noteq> 0) pbs) = Inr ps'" by blast
  with pbs show "\<exists>ps'. getPositions rd ad userAddress blockTag = Inr ps'"
    by (simp add: getPositions_def)
qed

theorem getPositions_balances_witness:
  "getPositions exampleReader (exampleAdapter Supply) ''0xu'' (Some 20) = Inr [examplePosition]
   \<and> (\<exists>ps'. getPositions exampleReader (exampleAdapter Supply) ''0xu'' (Some 20) = Inr ps')
   \<and> (\<exists>pbs s c.
         supplyBalance exampleReader ''0xc'' ''0xu'' (Some 20) = Inr s
       \<and> collateralBalance exampleReader ''0xc'' ''0xu'' (Some 20) = Inr c
       \<and> pbs = [(''0xa'', int s + int c)]
       \<and> map (\<lambda>p. (address p, balanceRaw p)) [examplePosition] = filter (\<lambda>pb. snd pb \<noteq> 0) pbs)
   \<and> balanceRaw examplePosition \<noteq> 0"
proof -
  note ret = example_positions_supply
  note balances =
    getPositions_balances [of exampleReader "exampleAdapter Supply" "''0xu''" "Some 20"
      "[examplePosition]"]
  have found: "\<forall>mkt \<in> set (getProtocolTokens (exampleAdapter Supply)).
          \<exists>pm bal. fetchPoolMetadata (exampleAdapter Supply) (address mkt) = Inr pm
                 \<and> getBalance exampleReader (exampleAdapter Supply) (underlyingToken pm) ''0xu''
                      (Some 20) = Inr bal"
    by (simp add: example_defs position_defs)
  from balances found
  have returns: "\<exists>ps'. getPositions exampleReader (exampleAdapter Supply) ''0xu'' (Some 20) = Inr ps'"
    by blast
  from balances ret obtain pbs where
    reads: "list_all2
           (\<lambda>mkt pb. fst pb = address mkt \<and>
              (\<exists>pm. fetchPoolMetadata (exampleAdapter Supply) (address mkt) = Inr pm \<and>
                 (if positionType (exampleAdapter Supply) = Supply
                  then \<exists>s c.
                         supplyBalance exampleReader (address (underlyingToken pm)) ''0xu'' (Some 20)
                           = Inr s
                       \<and> collateralBalance exampleReader (address (underlyingToken pm)) ''0xu''
                           (Some 20) = Inr c
                       \<and> snd pb = int s + int c
                  else \<exists>b.
                         borrowBalance exampleReader (address (underlyingToken pm)) ''0xu'' (Some 20)
                           = Inr b
                       \<and> snd pb = int b)))
           (getProtocolTokens (exampleAdapter Supply)) pbs"
    and kept: "map (\<lambda>p. (address p, balanceRaw p)) [examplePosition]
                 = filter (\<lambda>pb. snd pb \<noteq> 0) pbs"
    and nz: "\<forall>p \<in> set [examplePosition]. balanceRaw p \<noteq> 0"
    by blast
  from reads obtain pb where one: "pbs = [pb]"
    by (auto simp: getProtocolTokens_def exampleAdapter_def list_all2_Cons1)
  with reads obtain s c where
    "supplyBalance exampleReader ''0xc'' ''0xu'' (Some 20) = Inr s"
    "collateralBalance exampleReader ''0xc'' ''0xu'' (Some 20) = Inr c"
    "pb = (''0xa'', int s + int c)"
    by (cases pb)
      (auto simp: getProtocolTokens_def fetchPoolMetadata_def exampleAdapter_def
        exampleProtocolToken_def exampleUnderlyingToken_def)
  with one kept have "\<exists>pbs s c.
         supplyBalance exampleReader ''0xc'' ''0xu'' (Some 20) = Inr s
       \<and> collateralBalance exampleReader ''0xc'' ''0xu'' (Some 20) = Inr c
       \<and> pbs = [(''0xa'', int s + int c)]
       \<and> map (\<lambda>p. (address p, balanceRaw p)) [examplePosition] = filter (\<lambda>pb. snd pb \<noteq> 0) pbs"
    by blast
  with ret returns nz show ?thesis by simp
qed

section \<open>Supply positions and the conversion rate\<close>

text \<open>
  For every position \<open>p\<close> that a supply-position adapter returns, the raw balance is the
  sum of the supply balance and the collateral balance read for the market, the
  position has one underlying token balance, that of the market's underlying token with
  the raw balance of the position unchanged, and the conversion rate of a protocol token
  with that address is the bigint of the engine's \<^verbatim>\<open>10 ** decimals\<close>.
\<close>

lemma supply_position_entry:
  assumes "positionType ad = Supply"
    and "getPositions rd ad userAddress blockTag = Inr ps"
    and "p \<in> set ps"
  shows "\<exists>pm s c.
           fetchPoolMetadata ad (address p) = Inr pm
         \<and> supplyBalance rd (address (underlyingToken pm)) userAddress blockTag = Inr s
         \<and> collateralBalance rd (address (underlyingToken pm)) userAddress blockTag = Inr c
         \<and> balanceRaw p = int s + int c
         \<and> tokens p = [\<lparr>address = address (underlyingToken pm), name = name (underlyingToken pm),
                          symbol = symbol (underlyingToken pm),
                          decimals = decimals (underlyingToken pm),
                          balanceRaw = balanceRaw p, tokenType = Underlying\<rparr>]
         \<and> (\<forall>ptm pow10. address ptm = address p \<longrightarrow>
               getUnderlyingTokenConversionRate ad pow10 ptm =
                 bindR (bigIntOfDouble (pow10 (decimals ptm))) (\<lambda>rate.
                   Inr [\<lparr>address = address (underlyingToken pm), name = name (underlyingToken pm),
                         symbol = symbol (underlyingToken pm),
                         decimals = decimals (underlyingToken pm),
                         rateTokenType = Underlying, underlyingRateRaw = rate\<rparr>]))"
proof -
  from getPositions_entry [OF assms(2,3)] obtain pm where
    pm: "fetchPoolMetadata ad (address p) = Inr pm"
    and bal: "getBalance rd ad (underlyingToken pm) userAddress blockTag = Inr (balanceRaw p)"
    and cp: "completePosition ad (address p, balanceRaw p) = Inr p"
    by blast
  from getBalance_Inr_D [OF bal] assms(1) obtain s c where
    sc: "supplyBalance rd (address (underlyingToken pm)) userAddress blockTag = Inr s"
      "collateralBalance rd (address (underlyingToken pm)) userAddress blockTag = Inr c"
      "balanceRaw p = int s + int c"
    by auto
  from completePosition_Inr_D [OF cp] pm have
    tk: "tokens p = [\<lparr>address = address (underlyingToken pm), name = name (underlyingToken pm),
                          symbol = symbol (underlyingToken pm),
                          decimals = decimals (underlyingToken pm),
                          balanceRaw = balanceRaw p, tokenType = Underlying\<rparr>]"
    by auto
  have rate: "getUnderlyingTokenConversionRate ad pow10 ptm =
                 bindR (bigIntOfDouble (pow10 (decimals ptm))) (\<lambda>rate.
                   Inr [\<lparr>address = address (underlyingToken pm), name = name (underlyingToken pm),
                         symbol = symbol (underlyingToken pm),
                         decimals = decimals (underlyingToken pm),
                         rateTokenType = Underlying, underlyingRateRaw = rate\<rparr>])"
    if "address ptm = address p" for ptm pow10
    using that pm
    by (simp add: getUnderlyingTokenConversionRate_def pricePerShareRaw_def Let_def)
  from pm sc tk rate show ?thesis by blast
qed

text \<open>No double is \<open>10 ^ 24\<close>: its odd part, \<open>5 ^ 24\<close>, does not fit 53 bits.\<close>

lemma double_not_pow10_24: "bigIntOfDouble x \<noteq> Inr (10 ^ 24)"
proof (cases x)
  case Infinity
  then show ?thesis by (simp add: bigIntOfDouble_def)
next
  case (Finite mantissa e)
  have small: "unat mantissa < 2 ^ 53"
    using unsigned_less [of mantissa, where ?'a = nat] by simp
  show ?thesis
  proof (cases "0 \<le> e")
    case False
    have "unat mantissa div 2 ^ nat (- e) \<le> unat mantissa" by simp
    then have "unat mantissa div 2 ^ nat (- e) < 2 ^ 53" using small by (rule le_less_trans)
    then have "unat mantissa div 2 ^ nat (- e) \<noteq> 10 ^ 24" by simp
    with False Finite show ?thesis by (simp add: bigIntOfDouble_def)
  next
    case True
    define k where "k = nat e"
    have "unat mantissa * 2 ^ k \<noteq> 10 ^ 24"
    proof (cases "k \<le> 24")
      case True
      then have "k \<in> {0, 1, 2, 3, 4, 5, 6, 7, 8, 9, 10, 11, 12, 13, 14, 15, 16, 17, 18, 19, 20,
                    21, 22, 23, 24}"
        unfolding insert_iff empty_iff by presburger
      then show ?thesis using small
        by (elim insertE emptyE) simp_all
    next
      case False
      then have "k = 25 + (k - 25)" by simp
      then obtain j where k: "k = 25 + j" ..
      show ?thesis
      proof
        assume "unat mantissa * 2 ^ k = 10 ^ 24"
        then have "2 * (unat mantissa * 2 ^ j) = 59604644775390625"
          by (simp add: k power_add)
        then show False by presburger
      qed
    qed
    with True Finite show ?thesis by (simp add: bigIntOfDouble_def k_def)
  qed
qed

text \<open>
  C10. The claim holds in its first two parts (\<open>supply_position_entry\<close>): the raw
  balance of a supply position is the sum of the two reads, and the underlying balance
  is that balance unchanged. The conversion rate is not fixed at exactly
  \<open>10 ^ decimals\<close>: it is the bigint of the double \<^verbatim>\<open>1 * 10 ** decimals\<close>, and for a protocol
  token of \<open>24\<close> decimals no engine can return \<open>10 ^ 24\<close>, which is not a double; with
  the double \<open>7450580596923828 * 2 ^ 27\<close> for \<^verbatim>\<open>10 ** 24\<close> the rate is
  \<open>999999999999999983222784\<close>.
\<close>

theorem conversion_rate_not_exact:
  "getUnderlyingTokenConversionRate (exampleAdapter Supply) pow10
       (exampleProtocolToken\<lparr>decimals := 24\<rparr>)
     \<noteq> Inr [\<lparr>address = ''0xc'', name = ''Wrapped Ether'', symbol = ''WETH'', decimals = 18,
              rateTokenType = Underlying, underlyingRateRaw = 10 ^ 24\<rparr>]
   \<and> getUnderlyingTokenConversionRate (exampleAdapter Supply) (\<lambda>d. Finite 7450580596923828 27)
         (exampleProtocolToken\<lparr>decimals := 24\<rparr>)
       = Inr [\<lparr>address = ''0xc'', name = ''Wrapped Ether'', symbol = ''WETH'', decimals = 18,
                rateTokenType = Underlying, underlyingRateRaw = 999999999999999983222784\<rparr>]"
proof
  show "getUnderlyingTokenConversionRate (exampleAdapter Supply) pow10
       (exampleProtocolToken\<lparr>decimals := 24\<rparr>)
     \<noteq> Inr [\<lparr>address = ''0xc'', name = ''Wrapped Ether'', symbol = ''WETH'', decimals = 18,
              rateTokenType = Underlying, underlyingRateRaw = 10 ^ 24\<rparr>]"
    using double_not_pow10_24 [of "pow10 24"]
    by (cases "bigIntOfDouble (pow10 24)")
      (simp_all add: getUnderlyingTokenConversionRate_def pricePerShareRaw_def Let_def
        fetchPoolMetadata_def exampleAdapter_def exampleProtocolToken_def
        exampleUnderlyingToken_def)
  show "getUnderlyingTokenConversionRate (exampleAdapter Supply) (\<lambda>d. Finite 7450580596923828 27)
         (exampleProtocolToken\<lparr>decimals := 24\<rparr>)
       = Inr [\<lparr>address = ''0xc'', name = ''Wrapped Ether'', symbol = ''WETH'', decimals = 18,
                rateTokenType = Underlying, underlyingRateRaw = 999999999999999983222784\<rparr>]"
    by (simp add: getUnderlyingTokenConversionRate_def pricePerShareRaw_def bigIntOfDouble_def
        Let_def fetchPoolMetadata_def exampleAdapter_def exampleProtocolToken_def
        exampleUnderlyingToken_def)
qed

end
